theory Spec2Isabelle
  imports Main "HOL-Library.Sublist"
begin

section \<open>C strings and fixed buffers\<close>

text \<open>
  A \<^verbatim>\<open>const char*\<close> argument is modelled by the bytes of the C string it points to, a
  \<^typ>\<open>string\<close> that holds no terminator. A character array that the program fills
  with \<^verbatim>\<open>strncpy(dst, src, sizeof(dst) - 1)\<close> is modelled in one of two ways.

  \<^item> The arrays of the request (\<^verbatim>\<open>HttpRequest req = {0}\<close> in \<^verbatim>\<open>main\<close>) and of the route
    table (\<^verbatim>\<open>Server server = {0}\<close>) start as zeros and their last byte is never
    written, so the C string such an array holds after the copy is
    \<^term>\<open>take (cap - 1) src\<close>: these fields are strings.
  \<^item> The response (\<^verbatim>\<open>HttpResponse res;\<close> in \<^verbatim>\<open>main\<close>) is not initialised, so its body
    is the raw array of bytes, \<^verbatim>\<open>strncpy\<close> writes exactly its first \<open>n\<close> bytes, and
    \<^verbatim>\<open>strlen\<close> has a result only when the array holds a terminator.
\<close>

definition NUL :: char where
  "NUL = CHR 0x00"

definition CR :: char where
  "CR = CHR 0x0D"

definition LF :: char where
  "LF = CHR 0x0A"

text \<open>\<^verbatim>\<open>strncpy(dest, src, n)\<close> on a raw array: the first \<open>n\<close> bytes become the bytes of
  \<open>src\<close>, padded with zeros when \<open>src\<close> is shorter; the bytes from index \<open>n\<close> on are
  not touched. No terminator is written when \<open>src\<close> has \<open>n\<close> bytes or more.\<close>

definition strncpy :: "char list \<Rightarrow> string \<Rightarrow> nat \<Rightarrow> char list" where
  "strncpy dest src n = take n src @ replicate (n - length src) NUL @ drop n dest"

text \<open>\<^verbatim>\<open>strlen\<close> on a raw array: the index of the first zero byte. Without a zero byte
  in the array the call reads past its end, and has no result.\<close>

definition strlen :: "char list \<Rightarrow> nat option" where
  "strlen buf =
     (if NUL \<in> set buf then Some (length (takeWhile (\<lambda>c. c \<noteq> NUL) buf)) else None)"

text \<open>The C string a raw array holds: its bytes before the first zero byte.\<close>

definition c_str :: "char list \<Rightarrow> string" where
  "c_str buf = takeWhile (\<lambda>c. c \<noteq> NUL) buf"

text \<open>\<^verbatim>\<open>strstr(hay, needle)\<close>: the offset of the first occurrence of \<open>needle\<close>, or
  \<open>None\<close> for the null pointer.\<close>

fun strstr :: "string \<Rightarrow> string \<Rightarrow> nat option" where
  "strstr [] needle = (if needle = [] then Some 0 else None)"
| "strstr (c # cs) needle =
     (if prefix needle (c # cs) then Some 0 else map_option Suc (strstr cs needle))"

text \<open>\<^verbatim>\<open>strchr(s, c)\<close> for a character \<open>c\<close> other than the terminator.\<close>

fun strchr :: "string \<Rightarrow> char \<Rightarrow> nat option" where
  "strchr [] c = None"
| "strchr (x # xs) c = (if x = c then Some 0 else map_option Suc (strchr xs c))"

text \<open>\<^verbatim>\<open>strcmp(a, b) == 0\<close> and \<^verbatim>\<open>strncmp(a, b, n) == 0\<close> on C strings: equality of the
  strings, and equality of their first \<open>n\<close> bytes (a string shorter than \<open>n\<close> ends in
  its terminator, which differs from every byte of the other string).\<close>

definition strcmp_eq :: "string \<Rightarrow> string \<Rightarrow> bool" where
  "strcmp_eq a b = (a = b)"

definition strncmp_eq :: "string \<Rightarrow> string \<Rightarrow> nat \<Rightarrow> bool" where
  "strncmp_eq a b n = (take n a = take n b)"

section \<open>Data model\<close>

datatype HttpMethod = GET | POST | PUT | DELETE | UNSUPPORTED

text \<open>The request. Its arrays are zero-initialised by \<^verbatim>\<open>main\<close> (line 471), so each
  string field is the C string the array holds.\<close>

record HttpRequest =
  method' :: HttpMethod
  path :: string
  query_string :: string
  body :: string
  body_length :: int
  headers :: string

text \<open>The response. \<open>body\<close> is the raw array \<^verbatim>\<open>char body[4096]\<close>; \<open>content_type\<close> is
  only ever written by \<^verbatim>\<open>strcpy\<close> of a literal, and is the string it holds.\<close>

record HttpResponse =
  status_code :: int
  content_type :: string
  body :: "char list"
  body_length :: int

text \<open>Handlers and middleware are function pointers. A callee may write the request,
  the response and anything else it reaches (standard output, a counter): that rest is
  the world \<open>'w\<close>, passed in and returned. \<open>None\<close> is a call with no defined result.\<close>

type_synonym 'w RouteHandler =
  "HttpRequest \<Rightarrow> HttpResponse \<Rightarrow> 'w \<Rightarrow> (HttpRequest \<times> HttpResponse \<times> 'w) option"

type_synonym 'w Middleware =
  "HttpRequest \<Rightarrow> HttpResponse \<Rightarrow> 'w \<Rightarrow> (bool \<times> HttpRequest \<times> HttpResponse \<times> 'w) option"

record 'w Route =
  method' :: HttpMethod
  path :: string
  handler :: "'w RouteHandler"

text \<open>The server. \<open>routes\<close> is the used part \<^verbatim>\<open>routes[0 .. route_count - 1]\<close> of the route
  array, in index order, and \<open>middleware\<close> the used part of the middleware array; the
  two counters are the lengths of the lists.\<close>

record 'w Server =
  routes :: "'w Route list"
  middleware :: "'w Middleware list"

definition route_count :: "'w Server \<Rightarrow> int" where
  "route_count srv = int (length (routes srv))"

definition middleware_count :: "'w Server \<Rightarrow> int" where
  "middleware_count srv = int (length (middleware srv))"

definition MAX_ROUTES :: int where
  "MAX_ROUTES = 50"

definition MAX_MIDDLEWARE :: int where
  "MAX_MIDDLEWARE = 10"

text \<open>\<^verbatim>\<open>Server server = {0}\<close> (line 64).\<close>

definition server0 :: "'w Server" where
  "server0 = \<lparr>routes = [], middleware = []\<rparr>"

text \<open>\<^verbatim>\<open>HttpRequest req = {0}\<close> (line 471); \<open>GET\<close> is the enumerator 0.\<close>

definition zero_request :: HttpRequest where
  "zero_request =
     \<lparr>HttpRequest.method' = GET, HttpRequest.path = [], query_string = [],
      HttpRequest.body = [], HttpRequest.body_length = 0, headers = []\<rparr>"

section \<open>Request parser\<close>

definition parse_method :: "string \<Rightarrow> HttpMethod" where
  "parse_method method_str =
     (if strcmp_eq method_str ''GET'' then GET
      else if strcmp_eq method_str ''POST'' then POST
      else if strcmp_eq method_str ''PUT'' then PUT
      else if strcmp_eq method_str ''DELETE'' then DELETE
      else UNSUPPORTED)"

fun method_to_string :: "HttpMethod \<Rightarrow> string" where
  "method_to_string GET = ''GET''"
| "method_to_string POST = ''POST''"
| "method_to_string PUT = ''PUT''"
| "method_to_string DELETE = ''DELETE''"
| "method_to_string UNSUPPORTED = ''UNSUPPORTED''"

text \<open>White space of \<^verbatim>\<open>sscanf\<close>: space, \<^verbatim>\<open>\t\<close>, \<^verbatim>\<open>\n\<close>, \<^verbatim>\<open>\v\<close>, \<^verbatim>\<open>\f\<close>, \<^verbatim>\<open>\r\<close>.\<close>

definition isspace :: "char \<Rightarrow> bool" where
  "isspace c =
     (c = CHR '' '' \<or> c = CHR 0x09 \<or> c = CHR 0x0A \<or> c = CHR 0x0B \<or> c = CHR 0x0C \<or> c = CHR 0x0D)"

text \<open>One \<^verbatim>\<open>%s\<close> conversion: skip white space, then take the bytes up to the next white
  space; the result is the word and the input left.\<close>

definition scan_word :: "string \<Rightarrow> string \<times> string" where
  "scan_word s =
     (let s' = dropWhile isspace s
      in (takeWhile (\<lambda>c. \<not> isspace c) s', dropWhile (\<lambda>c. \<not> isspace c) s'))"

text \<open>\<^verbatim>\<open>sscanf(raw_request, "%s %s", method_str, full_path)\<close> with \<^verbatim>\<open>method_str[16]\<close> and
  \<^verbatim>\<open>full_path[512]\<close> (lines 87-90). The conversions have no width: a word that does not
  fit its array with its terminator is written past the end of the array. Where a
  word is missing, the array keeps its indeterminate content and is read afterwards.
  Both are \<open>None\<close>.\<close>

definition sscanf_request_line :: "string \<Rightarrow> (string \<times> string) option" where
  "sscanf_request_line raw_request =
     (let (method_str, rest) = scan_word raw_request in
        if method_str = [] \<or> 16 \<le> length method_str then None
        else
          let (full_path, rest') = scan_word rest in
            if full_path = [] \<or> 512 \<le> length full_path then None
            else Some (method_str, full_path))"

text \<open>\<^verbatim>\<open>parse_request\<close> (lines 86-114), on a request whose arrays end in a zero byte.\<close>

definition parse_request :: "string \<Rightarrow> HttpRequest \<Rightarrow> HttpRequest option" where
  "parse_request raw_request req =
     (case sscanf_request_line raw_request of
        None \<Rightarrow> None
      | Some (method_str, full_path) \<Rightarrow>
          let req1 = req\<lparr>HttpRequest.method' := parse_method method_str\<rparr>;
              req2 =
                (case strchr full_path (CHR ''?'') of
                   Some query_start \<Rightarrow>
                     req1\<lparr>HttpRequest.path := take 255 (take query_start full_path),
                          query_string := take 511 (drop (Suc query_start) full_path)\<rparr>
                 | None \<Rightarrow>
                     req1\<lparr>HttpRequest.path := take 255 full_path, query_string := []\<rparr>);
              req3 =
                (case strstr raw_request [CR, LF, CR, LF] of
                   Some body_start \<Rightarrow>
                     (let b = take 2047 (drop (body_start + 4) raw_request)
                      in req2\<lparr>HttpRequest.body := b,
                              HttpRequest.body_length := int (length b)\<rparr>)
                 | None \<Rightarrow> req2)
          in Some (req3\<lparr>headers := take 1023 raw_request\<rparr>))"

section \<open>Response builder\<close>

text \<open>\<^verbatim>\<open>init_response\<close> (lines 116-121) writes only byte 0 of the body.\<close>

definition init_response :: "HttpResponse \<Rightarrow> HttpResponse" where
  "init_response res =
     res\<lparr>status_code := 200, content_type := ''text/plain'',
         HttpResponse.body := (HttpResponse.body res)[0 := NUL],
         HttpResponse.body_length := 0\<rparr>"

text \<open>The three setters (lines 123-142): \<^verbatim>\<open>strncpy\<close> of at most 4095 bytes into the body,
  then \<^verbatim>\<open>strlen\<close> of the body.\<close>

definition set_json_response :: "HttpResponse \<Rightarrow> int \<Rightarrow> string \<Rightarrow> HttpResponse option" where
  "set_json_response res status json =
     (let b = strncpy (HttpResponse.body res) json 4095 in
        case strlen b of
          None \<Rightarrow> None
        | Some n \<Rightarrow>
            Some (res\<lparr>status_code := status, content_type := ''application/json'',
                      HttpResponse.body := b, HttpResponse.body_length := int n\<rparr>))"

definition set_text_response :: "HttpResponse \<Rightarrow> int \<Rightarrow> string \<Rightarrow> HttpResponse option" where
  "set_text_response res status text =
     (let b = strncpy (HttpResponse.body res) text 4095 in
        case strlen b of
          None \<Rightarrow> None
        | Some n \<Rightarrow>
            Some (res\<lparr>status_code := status, content_type := ''text/plain'',
                      HttpResponse.body := b, HttpResponse.body_length := int n\<rparr>))"

definition set_html_response :: "HttpResponse \<Rightarrow> int \<Rightarrow> string \<Rightarrow> HttpResponse option" where
  "set_html_response res status html =
     (let b = strncpy (HttpResponse.body res) html 4095 in
        case strlen b of
          None \<Rightarrow> None
        | Some n \<Rightarrow>
            Some (res\<lparr>status_code := status, content_type := ''text/html'',
                      HttpResponse.body := b, HttpResponse.body_length := int n\<rparr>))"

definition get_status_text :: "int \<Rightarrow> string" where
  "get_status_text code =
     (if code = 200 then ''OK''
      else if code = 201 then ''Created''
      else if code = 204 then ''No Content''
      else if code = 400 then ''Bad Request''
      else if code = 404 then ''Not Found''
      else if code = 405 then ''Method Not Allowed''
      else if code = 500 then ''Internal Server Error''
      else ''Unknown'')"

text \<open>The conversion \<^verbatim>\<open>%d\<close>: decimal digits, with a minus sign for a negative number.\<close>

fun digits :: "nat \<Rightarrow> string" where
  "digits n =
     (if n < 10 then [''0123456789'' ! n]
      else digits (n div 10) @ [''0123456789'' ! (n mod 10)])"

declare digits.simps [simp del]

definition print_d :: "int \<Rightarrow> string" where
  "print_d i = (if i < 0 then CHR ''-'' # digits (nat (- i)) else digits (nat i))"

text \<open>\<^verbatim>\<open>send_response\<close> (lines 396-412): the bytes handed to \<^verbatim>\<open>send\<close>. \<^verbatim>\<open>snprintf\<close> returns
  the length of the whole text; when that does not fit \<^verbatim>\<open>response[8192]\<close>, \<^verbatim>\<open>send\<close> is
  given a length beyond the array. The conversion \<^verbatim>\<open>%s\<close> of the body needs its
  terminator.\<close>

definition send_response :: "HttpResponse \<Rightarrow> string option" where
  "send_response res =
     (case strlen (HttpResponse.body res) of
        None \<Rightarrow> None
      | Some _ \<Rightarrow>
          let response =
                ''HTTP/1.1 '' @ print_d (status_code res) @ '' '' @
                  get_status_text (status_code res) @ [CR, LF] @
                ''Content-Type: '' @ content_type res @ [CR, LF] @
                ''Content-Length: '' @ print_d (HttpResponse.body_length res) @ [CR, LF] @
                ''Connection: close'' @ [CR, LF] @
                [CR, LF] @
                c_str (HttpResponse.body res);
              len = length response
          in if len < 8192 then Some response else None)"

section \<open>Middleware and handlers\<close>

text \<open>The world of the program's own middleware: the clock that \<^verbatim>\<open>time\<close> reads and the
  text written to standard output.\<close>

record World =
  clock :: int
  stdout :: string

text \<open>\<^verbatim>\<open>logger_middleware\<close> (lines 159-172). \<^verbatim>\<open>ctime\<close> is the C library's; its result
  loses its last byte, and an empty result would be written at index \<open>-1\<close>.\<close>

definition logger_middleware :: "(int \<Rightarrow> string) \<Rightarrow> World Middleware" where
  "logger_middleware ctime req res w =
     (let time_str = ctime (clock w) in
        if time_str = [] then None
        else
          Some (True, req, res,
            w\<lparr>stdout := stdout w @ ''['' @ butlast time_str @ ''] '' @
                 method_to_string (HttpRequest.method' req) @ '' '' @ HttpRequest.path req @
                 (if query_string req \<noteq> [] then ''?'' @ query_string req else []) @
                 [LF]\<rparr>))"

definition cors_middleware :: "'w Middleware" where
  "cors_middleware req res w = Some (True, req, res, w)"

definition auth_middleware :: "'w Middleware" where
  "auth_middleware req res w =
     (if strncmp_eq (HttpRequest.path req) ''/admin'' 6 then
        (if strstr (headers req) ''Authorization:'' = None then
           (case set_json_response res 401 ''{\"error\": \"Unauthorized\"}'' of
              None \<Rightarrow> None
            | Some res' \<Rightarrow> Some (False, req, res', w))
         else Some (True, req, res, w))
      else Some (True, req, res, w))"

definition handle_admin :: "'w RouteHandler" where
  "handle_admin req res w =
     (case set_json_response res 200 ''{\"message\": \"Welcome to admin panel\"}'' of
        None \<Rightarrow> None
      | Some res' \<Rightarrow> Some (req, res', w))"

definition handle_not_found :: "'w RouteHandler" where
  "handle_not_found req res w =
     (case set_json_response res 404 ''{\"error\": \"Route not found\"}'' of
        None \<Rightarrow> None
      | Some res' \<Rightarrow> Some (req, res', w))"

section \<open>Routing system\<close>

text \<open>\<^verbatim>\<open>register_route\<close> (lines 316-324): the path is copied into the zeroed array
  \<^verbatim>\<open>path[256]\<close> of the next free entry.\<close>

definition register_route ::
    "'w Server \<Rightarrow> HttpMethod \<Rightarrow> string \<Rightarrow> 'w RouteHandler \<Rightarrow> 'w Server" where
  "register_route srv m p h =
     (if route_count srv < MAX_ROUTES then
        srv\<lparr>routes := routes srv @ [\<lparr>Route.method' = m, Route.path = take 255 p, handler = h\<rparr>]\<rparr>
      else srv)"

definition register_middleware :: "'w Server \<Rightarrow> 'w Middleware \<Rightarrow> 'w Server" where
  "register_middleware srv mw =
     (if middleware_count srv < MAX_MIDDLEWARE then
        srv\<lparr>middleware := middleware srv @ [mw]\<rparr>
      else srv)"

text \<open>\<^verbatim>\<open>path_matches\<close> (lines 332-352). The local \<^verbatim>\<open>pattern[256]\<close> receives the first 255
  bytes of the route path; every path of the route table has at most 255 bytes, so
  \<open>pattern\<close> is then a copy of it. The second \<^verbatim>\<open>strstr\<close> runs on that copy, and the
  copy is cut at the placeholder it finds. (\<open>pattern\<close> is not initialised and its byte
  255 is never written. For a route path of at most 255 bytes the first \<open>/:id\<close> lies in
  the bytes copied, and that is the occurrence the search returns; a longer route
  path cannot come from the route table.)\<close>

definition path_matches :: "string \<Rightarrow> string \<Rightarrow> bool" where
  "path_matches route_path req_path =
     (if strcmp_eq route_path req_path then True
      else if strstr route_path ''/:id'' \<noteq> None then
        (let pattern = take 255 route_path in
           case strstr pattern ''/:id'' of
             Some placeholder \<Rightarrow>
               (let pattern' = take placeholder pattern in
                  if strncmp_eq pattern' req_path (length pattern') then True else False)
           | None \<Rightarrow> False)
      else False)"

text \<open>The test of \<^verbatim>\<open>find_handler\<close> on one entry (lines 356-357).\<close>

definition route_matches :: "'w Route \<Rightarrow> HttpRequest \<Rightarrow> bool" where
  "route_matches r req =
     (Route.method' r = HttpRequest.method' req \<and>
      path_matches (Route.path r) (HttpRequest.path req))"

text \<open>\<^verbatim>\<open>find_handler\<close> (lines 354-362): the loop over the used entries, as a recursion
  over their list.\<close>

fun find_handler_loop :: "'w Route list \<Rightarrow> HttpRequest \<Rightarrow> 'w RouteHandler" where
  "find_handler_loop [] req = handle_not_found"
| "find_handler_loop (r # rs) req =
     (if route_matches r req then handler r else find_handler_loop rs req)"

definition find_handler :: "'w Server \<Rightarrow> HttpRequest \<Rightarrow> 'w RouteHandler" where
  "find_handler srv req = find_handler_loop (routes srv) req"

text \<open>\<^verbatim>\<open>handle_request\<close> (lines 364-375). The middleware loop returns \<open>False\<close> with the
  state its last gate left when a gate returned \<^verbatim>\<open>false\<close>, and \<open>True\<close> when all have
  run.\<close>

fun middleware_loop ::
    "'w Middleware list \<Rightarrow> HttpRequest \<Rightarrow> HttpResponse \<Rightarrow> 'w \<Rightarrow>
     (bool \<times> HttpRequest \<times> HttpResponse \<times> 'w) option" where
  "middleware_loop [] req res w = Some (True, req, res, w)"
| "middleware_loop (mw # mws) req res w =
     (case mw req res w of
        None \<Rightarrow> None
      | Some (continue, req', res', w') \<Rightarrow>
          if \<not> continue then Some (False, req', res', w')
          else middleware_loop mws req' res' w')"

definition handle_request :: "'w Server \<Rightarrow> 'w RouteHandler" where
  "handle_request srv req res w =
     (case middleware_loop (middleware srv) req res w of
        None \<Rightarrow> None
      | Some (continue, req', res', w') \<Rightarrow>
          if \<not> continue then Some (req', res', w')
          else (find_handler srv req') req' res' w')"

text \<open>One round of the server loop (lines 469-482) on the bytes received and the
  response variable as it is found: the bytes sent and the world afterwards.\<close>

definition serve_connection ::
    "'w Server \<Rightarrow> string \<Rightarrow> HttpResponse \<Rightarrow> 'w \<Rightarrow> (string \<times> 'w) option" where
  "serve_connection srv buffer res0 w =
     (case parse_request buffer zero_request of
        None \<Rightarrow> None
      | Some req \<Rightarrow>
          (case handle_request srv req (init_response res0) w of
             None \<Rightarrow> None
           | Some (req', res', w') \<Rightarrow>
               (case send_response res' of
                  None \<Rightarrow> None
                | Some bytes \<Rightarrow> Some (bytes, w'))))"

section \<open>Concrete gates, handlers and servers\<close>

text \<open>A world that is one counter, a gate that always stops, a gate and a handler
  that count their calls, and a server filled to both capacities by registration.\<close>

definition stop_gate :: "nat Middleware" where
  "stop_gate req res w = Some (False, req, res, w)"

definition count_gate :: "nat Middleware" where
  "count_gate req res w = Some (True, req, res, Suc w)"

definition count_handler :: "nat RouteHandler" where
  "count_handler req res w = Some (req, res, w + 100)"

definition full_server :: "nat Server" where
  "full_server =
     ((\<lambda>s. register_middleware s count_gate) ^^ 10)
       (((\<lambda>s. register_route s GET ''/r'' count_handler) ^^ 50) server0)"

text \<open>The response variable as \<^verbatim>\<open>main\<close> may find it before \<^verbatim>\<open>init_response\<close>: no byte
  of it is zero.\<close>

definition garbage_response :: HttpResponse where
  "garbage_response =
     \<lparr>status_code = 2021161080, content_type = replicate 63 (CHR ''x''),
      HttpResponse.body = replicate 4096 (CHR ''x''), HttpResponse.body_length = 2021161080\<rparr>"

text \<open>The text of a \<open>GET\<close> request for a path, with no header and no body, the
  request that \<open>parse_request\<close> makes of it (see \<open>parse_get_requests\<close>), and a server
  with four routes, two of which match \<open>GET /api/users/7\<close>.\<close>

definition raw_get :: "string \<Rightarrow> string" where
  "raw_get p = ''GET '' @ p @ '' HTTP/1.1'' @ [CR, LF, CR, LF]"

definition get_request :: "string \<Rightarrow> HttpRequest" where
  "get_request p =
     \<lparr>HttpRequest.method' = GET, HttpRequest.path = p, query_string = [],
      HttpRequest.body = [], HttpRequest.body_length = 0, headers = raw_get p\<rparr>"

definition users_server :: "nat Server" where
  "users_server =
     register_route
       (register_route
         (register_route
           (register_route server0 GET ''/api/users'' handle_admin)
           POST ''/api/users/:id'' handle_admin)
         GET ''/api/users/:id'' count_handler)
       GET ''/api/users/7'' handle_admin"

text \<open>The middleware chain of \<^verbatim>\<open>setup_routes\<close> (lines 381-383) in front of the route
  \<open>GET /admin\<close>, with a \<^verbatim>\<open>ctime\<close> that always gives the same text, and a request for
  \<open>/admin/panel\<close> that carries no \<open>Authorization:\<close> header.\<close>

definition fixed_ctime :: "int \<Rightarrow> string" where
  "fixed_ctime t = ''Thu Jan  1 00:00:00 1970'' @ [LF]"

definition admin_raw :: string where
  "admin_raw = ''GET /admin/panel HTTP/1.1'' @ [CR, LF] @ ''Host: localhost'' @ [CR, LF, CR, LF]"

definition admin_request :: HttpRequest where
  "admin_request =
     \<lparr>HttpRequest.method' = GET, HttpRequest.path = ''/admin/panel'', query_string = [],
      HttpRequest.body = [], HttpRequest.body_length = 0, headers = admin_raw\<rparr>"

definition admin_server :: "World Server" where
  "admin_server =
     register_route
       (register_middleware
         (register_middleware
           (register_middleware server0 (logger_middleware fixed_ctime))
           auth_middleware)
         cors_middleware)
       GET ''/admin'' handle_admin"

text \<open>Two handlers with different results, a server that registers a parameterized
  route before a literal route under the same prefix, and a server that guards the
  route \<open>GET /admin\<close> with the authorisation gate.\<close>

definition param_handler :: "nat RouteHandler" where
  "param_handler req res w =
     (case set_json_response res 404 ''{\"error\": \"User not found\"}'' of
        None \<Rightarrow> None
      | Some res' \<Rightarrow> Some (req, res', w))"

definition literal_handler :: "nat RouteHandler" where
  "literal_handler req res w =
     (case set_json_response res 200 ''{\"id\": \"me\"}'' of
        None \<Rightarrow> None
      | Some res' \<Rightarrow> Some (req, res', w))"

definition shadow_server :: "nat Server" where
  "shadow_server =
     register_route
       (register_route server0 GET ''/api/users/:id'' param_handler)
       GET ''/api/users/me'' literal_handler"

definition gated_server :: "nat Server" where
  "gated_server =
     register_route (register_middleware server0 auth_middleware) GET ''/admin'' handle_admin"

text \<open>The guarded server with a second route, and a request for that route that
  carries an \<open>Authorization:\<close> header.\<close>

definition authorized_raw :: string where
  "authorized_raw =
     ''GET /admin/users HTTP/1.1'' @ [CR, LF] @ ''Authorization: Bearer t'' @ [CR, LF, CR, LF]"

definition authorized_request :: HttpRequest where
  "authorized_request =
     \<lparr>HttpRequest.method' = GET, HttpRequest.path = ''/admin/users'', query_string = [],
      HttpRequest.body = [], HttpRequest.body_length = 0, headers = authorized_raw\<rparr>"

definition admin_users_server :: "nat Server" where
  "admin_users_server = register_route gated_server GET ''/admin/users'' count_handler"

text \<open>The response that \<^verbatim>\<open>set_json_response\<close> leaves for status 201 and the content
  \<open>{"id":4}\<close>, and a response whose body was written without its \<open>body_length\<close>.\<close>

definition created_response :: HttpResponse where
  "created_response =
     (init_response garbage_response)
       \<lparr>status_code := 201, content_type := ''application/json'',
        HttpResponse.body :=
          strncpy (HttpResponse.body (init_response garbage_response)) ''{\"id\":4}'' 4095,
        HttpResponse.body_length := 8\<rparr>"

definition stale_response :: HttpResponse where
  "stale_response =
     (init_response garbage_response)
       \<lparr>HttpResponse.body :=
          strncpy (HttpResponse.body (init_response garbage_response)) ''hello'' 4095\<rparr>"

text \<open>Three request texts: a target with a query string, a target without one, and
  a target whose path part has 301 bytes.\<close>

definition hello_raw :: string where
  "hello_raw = ''GET /api/hello?name=Ada HTTP/1.1'' @ [CR, LF, CR, LF]"

definition plain_raw :: string where
  "plain_raw = ''GET /api/hello HTTP/1.1'' @ [CR, LF, CR, LF]"

definition long_raw :: string where
  "long_raw =
     ''GET /'' @ replicate 300 (CHR ''a'') @ ''?x=1 HTTP/1.1'' @ [CR, LF, CR, LF]"

section \<open>Facts about the string functions\<close>

lemma strstr_prefix: "prefix needle hay \<Longrightarrow> strstr hay needle = Some 0"
  by (cases hay) auto

lemma take_length_prefix: "prefix q r \<Longrightarrow> take (length q) r = q"
  by (auto simp: prefix_def)

lemma strstr_append_le:
  "\<exists>k. strstr (p @ needle @ s) needle = Some k \<and> k \<le> length p"
proof (induction p)
  case Nil
  show ?case by (simp add: strstr_prefix)
next
  case (Cons c p)
  then obtain k where k: "strstr (p @ needle @ s) needle = Some k" "k \<le> length p"
    by blast
  show ?case
  proof (cases "prefix needle (c # p @ needle @ s)")
    case True
    then show ?thesis by simp
  next
    case False
    with k show ?thesis by simp
  qed
qed

lemma strncmp_eq_prefix: "prefix q r \<Longrightarrow> strncmp_eq q r (length q)"
  by (simp add: strncmp_eq_def take_length_prefix)

lemma path_matches_cut:
  "strstr rp ''/:id'' = Some k \<Longrightarrow> take 255 rp = rp \<Longrightarrow>
   strncmp_eq (take k rp) req_path (length (take k rp)) \<Longrightarrow> path_matches rp req_path"
  by (simp add: path_matches_def)

lemma path_matches_placeholder:
  assumes len: "length (p @ ''/:id'') \<le> 255" and pre: "prefix p req_path"
  shows "path_matches (p @ ''/:id'') req_path"
proof -
  let ?rp = "p @ ''/:id''"
  obtain k where k: "strstr ?rp ''/:id'' = Some k" "k \<le> length p"
    using strstr_append_le [of p "''/:id''" "[]"] by auto
  from len have tk: "take 255 ?rp = ?rp" by simp
  have "take k ?rp = take k p" using k(2) by simp
  moreover have "prefix (take k p) p" by (rule take_is_prefix)
  ultimately have "prefix (take k ?rp) req_path"
    using pre by (metis prefix_order.trans)
  then have "strncmp_eq (take k ?rp) req_path (length (take k ?rp))"
    by (rule strncmp_eq_prefix)
  with k(1) tk show ?thesis by (rule path_matches_cut)
qed

section \<open>Facts about the request parser\<close>

lemma strchr_append: "c \<notin> set a \<Longrightarrow> strchr (a @ c # b) c = Some (length a)"
  by (induction a) auto

lemma strchr_None: "c \<notin> set s \<Longrightarrow> strchr s c = None"
  by (induction s) auto

lemma strchr_Some:
  "strchr s c = Some k \<Longrightarrow> s = take k s @ c # drop (Suc k) s \<and> c \<notin> set (take k s)"
proof (induction s arbitrary: k)
  case Nil
  then show ?case by simp
next
  case (Cons x xs)
  show ?case
  proof (cases "x = c")
    case True
    with Cons.prems show ?thesis by simp
  next
    case False
    with Cons.prems obtain j where j: "strchr xs c = Some j" "k = Suc j" by auto
    with Cons.IH [of j] False show ?thesis by auto
  qed
qed

lemma scan_word_word:
  assumes "m \<noteq> []" and "\<forall>c\<in>set m. \<not> isspace c" and "isspace sp"
  shows "scan_word (m @ sp # rest) = (m, sp # rest)"
proof -
  from assms(1,2) have "dropWhile isspace (m @ sp # rest) = m @ sp # rest"
    by (cases m) auto
  moreover from assms(2,3) have "takeWhile (\<lambda>c. \<not> isspace c) (m @ sp # rest) = m"
    by (simp add: takeWhile_tail)
  moreover from assms(2,3) have "dropWhile (\<lambda>c. \<not> isspace c) (m @ sp # rest) = sp # rest"
    by (simp add: dropWhile_append2)
  ultimately show ?thesis by (simp add: scan_word_def)
qed

lemma scan_word_skip: "isspace sp \<Longrightarrow> scan_word (sp # s) = scan_word s"
  by (simp add: scan_word_def)

lemma sscanf_request_line_standard:
  assumes "method_str \<noteq> []" and "length method_str < 16"
    and "target \<noteq> []" and "length target < 512"
    and "\<forall>c\<in>set (method_str @ target). \<not> isspace c"
  shows "sscanf_request_line (method_str @ CHR '' '' # target @ CHR '' '' # rest) =
           Some (method_str, target)"
proof -
  have sp: "isspace (CHR '' '')" by (simp add: isspace_def)
  from assms(1,5) sp
  have 1: "scan_word (method_str @ CHR '' '' # target @ CHR '' '' # rest) =
             (method_str, CHR '' '' # target @ CHR '' '' # rest)"
    by (intro scan_word_word) auto
  from assms(3,5) sp
  have 2: "scan_word (CHR '' '' # target @ CHR '' '' # rest) = (target, CHR '' '' # rest)"
    by (simp add: scan_word_skip scan_word_word)
  from assms(1-4) show ?thesis
    by (simp add: sscanf_request_line_def 1 2)
qed

lemma sscanf_request_line_bounds:
  "sscanf_request_line raw = Some (method_str, target) \<Longrightarrow>
   method_str \<noteq> [] \<and> length method_str < 16 \<and> target \<noteq> [] \<and> length target < 512"
  by (auto simp: sscanf_request_line_def Let_def split: prod.splits if_splits)

lemma parse_request_fields:
  assumes "sscanf_request_line raw = Some (method_str, target)"
  shows "\<exists>r. parse_request raw req = Some r \<and>
           HttpRequest.method' r = parse_method method_str \<and>
           headers r = take 1023 raw \<and>
           HttpRequest.path r =
             (case strchr target (CHR ''?'') of
                Some k \<Rightarrow> take 255 (take k target) | None \<Rightarrow> take 255 target) \<and>
           query_string r =
             (case strchr target (CHR ''?'') of
                Some k \<Rightarrow> take 511 (drop (Suc k) target) | None \<Rightarrow> [])"
  using assms by (simp add: parse_request_def Let_def split: option.splits)

lemma parse_request_query:
  assumes "sscanf_request_line raw = Some (method_str, before @ CHR ''?'' # after)"
    and "CHR ''?'' \<notin> set before"
  shows "\<exists>r. parse_request raw req = Some r \<and> HttpRequest.path r = take 255 before \<and>
           query_string r = after"
proof -
  from assms(2) have k: "strchr (before @ CHR ''?'' # after) (CHR ''?'') = Some (length before)"
    by (rule strchr_append)
  from assms(1) have "length (before @ CHR ''?'' # after) < 512"
    using sscanf_request_line_bounds by blast
  then have "take 511 after = after" by simp
  with parse_request_fields [OF assms(1), of req] k show ?thesis by auto
qed

lemma parse_request_no_query:
  assumes "sscanf_request_line raw = Some (method_str, target)"
    and "CHR ''?'' \<notin> set target"
  shows "\<exists>r. parse_request raw req = Some r \<and> HttpRequest.path r = take 255 target \<and>
           query_string r = []"
  using parse_request_fields [OF assms(1), of req] strchr_None [OF assms(2)] by auto

lemma parse_request_path_no_query_mark:
  assumes "parse_request raw req = Some r"
  shows "CHR ''?'' \<notin> set (HttpRequest.path r)"
proof -
  from assms obtain method_str target where s: "sscanf_request_line raw = Some (method_str, target)"
    by (auto simp: parse_request_def split: option.splits)
  show ?thesis
  proof (cases "strchr target (CHR ''?'')")
    case None
    then have "CHR ''?'' \<notin> set target"
      by (induction target) (auto split: if_splits)
    then have "CHR ''?'' \<notin> set (take 255 target)" by (auto dest: in_set_takeD)
    with parse_request_fields [OF s, of req] assms None show ?thesis by auto
  next
    case (Some k)
    then have "CHR ''?'' \<notin> set (take k target)" using strchr_Some by blast
    then have "CHR ''?'' \<notin> set (take 255 (take k target))" by (metis in_set_takeD)
    with parse_request_fields [OF s, of req] assms Some show ?thesis by auto
  qed
qed

lemma sscanf_request_line_iff:
  "sscanf_request_line raw = Some (method_str, target) \<longleftrightarrow>
     (\<exists>rest rest'. scan_word raw = (method_str, rest) \<and> scan_word rest = (target, rest') \<and>
        method_str \<noteq> [] \<and> length method_str \<le> 15 \<and> target \<noteq> [] \<and> length target \<le> 511)"
  by (auto simp: sscanf_request_line_def Let_def split: prod.splits if_splits)

lemma parse_request_None_iff:
  "parse_request raw req = None \<longleftrightarrow> sscanf_request_line raw = None"
  by (auto simp: parse_request_def Let_def split: option.splits)

text \<open>A target of 601 bytes does not fit \<^verbatim>\<open>full_path[512]\<close>: the model has no result.\<close>

lemma parse_request_long_target:
  "parse_request (''GET /'' @ replicate 600 (CHR ''a'') @ '' HTTP/1.1'' @ [CR, LF, CR, LF]) req = None"
proof -
  have sp: "isspace (CHR '' '')" by (simp add: isspace_def)
  have 1: "scan_word (''GET'' @ CHR '' '' # (CHR ''/'' # replicate 600 (CHR ''a'')) @ CHR '' '' # (''HTTP/1.1'' @ [CR, LF, CR, LF]))
      = (''GET'', CHR '' '' # (CHR ''/'' # replicate 600 (CHR ''a'')) @ CHR '' '' # (''HTTP/1.1'' @ [CR, LF, CR, LF]))"
    by (rule scan_word_word) (auto simp: isspace_def)
  have 2: "scan_word (CHR '' '' # (CHR ''/'' # replicate 600 (CHR ''a'')) @ CHR '' '' # (''HTTP/1.1'' @ [CR, LF, CR, LF]))
      = (CHR ''/'' # replicate 600 (CHR ''a''), CHR '' '' # (''HTTP/1.1'' @ [CR, LF, CR, LF]))"
    unfolding scan_word_skip [OF sp] by (rule scan_word_word) (auto simp: isspace_def)
  have "sscanf_request_line (''GET'' @ CHR '' '' # (CHR ''/'' # replicate 600 (CHR ''a'')) @ CHR '' '' # (''HTTP/1.1'' @ [CR, LF, CR, LF])) = None"
    by (simp only: sscanf_request_line_def 1 2 Let_def prod.case) simp
  then show ?thesis by (simp add: parse_request_def)
qed

lemma long_raw_scan:
  "sscanf_request_line long_raw =
     Some (''GET'', (CHR ''/'' # replicate 300 (CHR ''a'')) @ CHR ''?'' # ''x=1'')"
proof -
  have "long_raw =
      ''GET'' @ CHR '' '' # ((CHR ''/'' # replicate 300 (CHR ''a'')) @ CHR ''?'' # ''x=1'') @
        CHR '' '' # (''HTTP/1.1'' @ [CR, LF, CR, LF])"
    by (simp add: long_raw_def)
  moreover have "sscanf_request_line
      (''GET'' @ CHR '' '' # ((CHR ''/'' # replicate 300 (CHR ''a'')) @ CHR ''?'' # ''x=1'') @
        CHR '' '' # (''HTTP/1.1'' @ [CR, LF, CR, LF])) =
      Some (''GET'', (CHR ''/'' # replicate 300 (CHR ''a'')) @ CHR ''?'' # ''x=1'')"
    by (rule sscanf_request_line_standard) (auto simp: isspace_def)
  ultimately show ?thesis by (simp only:)
qed

section \<open>Facts about raw arrays\<close>

lemma takeWhile_stop:
  "NUL \<notin> set s \<Longrightarrow> takeWhile (\<lambda>c. c \<noteq> NUL) (s @ NUL # rest) = s"
  by (induction s) auto

lemma strncpy_short:
  assumes "length src < n"
  shows "\<exists>rest. strncpy dest src n = src @ NUL # rest"
proof -
  from assms obtain k where "n - length src = Suc k"
    by (cases "n - length src") auto
  with assms show ?thesis by (simp add: strncpy_def)
qed

lemma c_str_strncpy_short:
  assumes "length src < n" and "NUL \<notin> set src"
  shows "c_str (strncpy dest src n) = src"
proof -
  from assms(1) obtain rest where "strncpy dest src n = src @ NUL # rest"
    using strncpy_short by blast
  with assms(2) show ?thesis by (simp add: c_str_def takeWhile_stop)
qed

lemma strlen_strncpy_short:
  assumes "length src < n" and "NUL \<notin> set src"
  shows "strlen (strncpy dest src n) = Some (length src)"
proof -
  from assms(1) obtain rest where "strncpy dest src n = src @ NUL # rest"
    using strncpy_short by blast
  with assms(2) show ?thesis by (simp add: strlen_def takeWhile_stop)
qed

lemma strlen_strncpy_long_none:
  "n \<le> length src \<Longrightarrow> NUL \<notin> set (take n src) \<Longrightarrow> NUL \<notin> set (drop n dest) \<Longrightarrow>
   strlen (strncpy dest src n) = None"
  by (simp add: strlen_def strncpy_def)

lemma strlen_strncpy_long_some:
  assumes "n \<le> length src" and "NUL \<notin> set (take n src)"
    and "n < length dest" and "dest ! n = NUL"
  shows "strlen (strncpy dest src n) = Some n"
proof -
  from assms(3,4) have "drop n dest = NUL # drop (Suc n) dest"
    by (metis Cons_nth_drop_Suc)
  with assms(1) have "strncpy dest src n = take n src @ NUL # drop (Suc n) dest"
    by (simp add: strncpy_def)
  with assms(1,2) show ?thesis by (simp add: strlen_def takeWhile_stop)
qed

lemma strlen_c_str: "strlen buf = Some n \<Longrightarrow> n = length (c_str buf)"
  by (auto simp: strlen_def c_str_def split: if_splits)

lemma set_json_response_short:
  assumes "length json < 4095" and "NUL \<notin> set json"
  shows "set_json_response res status json =
           Some (res\<lparr>status_code := status, content_type := ''application/json'',
                     HttpResponse.body := strncpy (HttpResponse.body res) json 4095,
                     HttpResponse.body_length := int (length json)\<rparr>)"
  using assms by (simp add: set_json_response_def strlen_strncpy_short)

lemma length_c_str_less: "NUL \<in> set buf \<Longrightarrow> length (c_str buf) < length buf"
  unfolding c_str_def by (induction buf) auto

lemma length_strncpy: "n \<le> length dest \<Longrightarrow> length (strncpy dest src n) = length dest"
  by (auto simp: strncpy_def)

lemma set_response_body_length:
  "set_json_response res0 status content = Some res \<or>
   set_text_response res0 status content = Some res \<or>
   set_html_response res0 status content = Some res \<Longrightarrow>
   HttpResponse.body_length res = int (length (c_str (HttpResponse.body res)))"
  by (auto simp: set_json_response_def set_text_response_def set_html_response_def Let_def
        split: option.splits dest: strlen_c_str)

lemma created_response_set:
  "set_json_response (init_response garbage_response) 201 ''{\"id\":4}'' = Some created_response"
  by (simp add: set_json_response_short NUL_def created_response_def)

lemma created_response_facts:
  "length (HttpResponse.body created_response) = 4096 \<and>
   strlen (HttpResponse.body created_response) = Some 8 \<and>
   c_str (HttpResponse.body created_response) = ''{\"id\":4}'' \<and>
   status_code created_response = 201 \<and>
   content_type created_response = ''application/json'' \<and>
   HttpResponse.body_length created_response = 8"
  by (simp add: created_response_def init_response_def garbage_response_def length_strncpy
        strlen_strncpy_short c_str_strncpy_short NUL_def)

lemma stale_response_facts:
  "strlen (HttpResponse.body stale_response) = Some 5 \<and>
   c_str (HttpResponse.body stale_response) = ''hello'' \<and>
   status_code stale_response = 200 \<and>
   content_type stale_response = ''text/plain'' \<and>
   HttpResponse.body_length stale_response = 0"
  by (simp add: stale_response_def init_response_def garbage_response_def
        strlen_strncpy_short c_str_strncpy_short NUL_def)

section \<open>Facts about the response invariant\<close>

lemma strlen_None_iff: "strlen buf = None \<longleftrightarrow> NUL \<notin> set buf"
  by (simp add: strlen_def)

lemma init_response_fields:
  "HttpResponse.body res \<noteq> [] \<Longrightarrow>
   status_code (init_response res) = 200 \<and>
   content_type (init_response res) = ''text/plain'' \<and>
   c_str (HttpResponse.body (init_response res)) = [] \<and>
   strlen (HttpResponse.body (init_response res)) = Some 0 \<and>
   HttpResponse.body_length (init_response res) = 0"
  by (cases "HttpResponse.body res") (simp_all add: init_response_def c_str_def strlen_def)

lemma setters_short_content:
  assumes "length content < 4095" and "NUL \<notin> set content"
  shows "\<exists>j t h.
           set_json_response res status content = Some j \<and>
           set_text_response res status content = Some t \<and>
           set_html_response res status content = Some h \<and>
           c_str (HttpResponse.body j) = content \<and> HttpResponse.body_length j = int (length content) \<and>
           c_str (HttpResponse.body t) = content \<and> HttpResponse.body_length t = int (length content) \<and>
           c_str (HttpResponse.body h) = content \<and> HttpResponse.body_length h = int (length content)"
  using assms
  by (simp add: set_json_response_def set_text_response_def set_html_response_def
        strlen_strncpy_short c_str_strncpy_short)

lemma strlen_strncpy_short_any:
  assumes "length src < n"
  shows "\<exists>k. strlen (strncpy dest src n) = Some k"
proof -
  from assms obtain rest where "strncpy dest src n = src @ NUL # rest"
    using strncpy_short by blast
  then show ?thesis by (simp add: strlen_def)
qed

lemma setters_short_content_return:
  assumes "length content < 4095"
  shows "\<exists>j t h.
           set_json_response res0 status content = Some j \<and>
           set_text_response res0 status content = Some t \<and>
           set_html_response res0 status content = Some h \<and>
           HttpResponse.body_length j = int (length (c_str (HttpResponse.body j))) \<and>
           HttpResponse.body_length t = int (length (c_str (HttpResponse.body t))) \<and>
           HttpResponse.body_length h = int (length (c_str (HttpResponse.body h))) \<and>
           (NUL \<notin> set content \<longrightarrow>
              c_str (HttpResponse.body j) = content \<and>
              c_str (HttpResponse.body t) = content \<and>
              c_str (HttpResponse.body h) = content)"
proof -
  let ?b = "strncpy (HttpResponse.body res0) content 4095"
  from assms obtain k where k: "strlen ?b = Some k"
    using strlen_strncpy_short_any by blast
  then have len: "k = length (c_str ?b)"
    by (rule strlen_c_str)
  have c: "c_str ?b = content" if "NUL \<notin> set content"
    using assms that by (rule c_str_strncpy_short)
  have j: "set_json_response res0 status content =
      Some (res0\<lparr>status_code := status, content_type := ''application/json'',
                  HttpResponse.body := ?b, HttpResponse.body_length := int k\<rparr>)"
    by (simp add: set_json_response_def k)
  have t: "set_text_response res0 status content =
      Some (res0\<lparr>status_code := status, content_type := ''text/plain'',
                  HttpResponse.body := ?b, HttpResponse.body_length := int k\<rparr>)"
    by (simp add: set_text_response_def k)
  have h: "set_html_response res0 status content =
      Some (res0\<lparr>status_code := status, content_type := ''text/html'',
                  HttpResponse.body := ?b, HttpResponse.body_length := int k\<rparr>)"
    by (simp add: set_html_response_def k)
  show ?thesis
    unfolding j t h using len c by simp
qed

lemma drop_last_byte: "length xs = Suc n \<Longrightarrow> drop n xs = [xs ! n]"
  by (simp add: Cons_nth_drop_Suc [symmetric])

lemma setters_truncated_terminated:
  assumes "4095 \<le> length content" and "NUL \<notin> set (take 4095 content)"
    and "length (HttpResponse.body res) = 4096" and "HttpResponse.body res ! 4095 = NUL"
  shows "\<exists>j. set_json_response res status content = Some j \<and>
           c_str (HttpResponse.body j) = take 4095 content \<and>
           HttpResponse.body_length j = 4095"
proof -
  let ?b = "strncpy (HttpResponse.body res) content 4095"
  from assms have n: "strlen ?b = Some 4095"
    by (intro strlen_strncpy_long_some) auto
  from assms(3) have "length (HttpResponse.body res) = Suc 4095" by simp
  then have "drop 4095 (HttpResponse.body res) = [HttpResponse.body res ! 4095]"
    by (rule drop_last_byte)
  with assms(1,2,4) have "c_str ?b = take 4095 content"
    by (simp add: c_str_def strncpy_def takeWhile_stop)
  with n show ?thesis by (simp add: set_json_response_def)
qed

lemma garbage_tail:
  "drop 4095 (HttpResponse.body (init_response garbage_response)) = [CHR ''x'']"
proof -
  have "drop 4095 ((replicate 4096 (CHR ''x''))[0 := NUL]) = drop 4095 (replicate 4096 (CHR ''x''))"
    by (rule drop_update_cancel) simp
  also have "\<dots> = replicate (4096 - 4095) (CHR ''x'')" by (rule drop_replicate)
  also have "\<dots> = [CHR ''x'']" by simp
  finally show ?thesis by (simp only: init_response_def garbage_response_def HttpResponse.simps)
qed

lemma a_no_NUL: "NUL \<notin> set (take 4095 (replicate 4095 (CHR ''a'')))"
  by (simp add: NUL_def)

lemma truncated_copy_unterminated:
  "strlen (strncpy (HttpResponse.body (init_response garbage_response))
     (replicate 4095 (CHR ''a'')) 4095) = None"
proof (rule strlen_strncpy_long_none)
  show "4095 \<le> length (replicate 4095 (CHR ''a''))" by simp
  show "NUL \<notin> set (take 4095 (replicate 4095 (CHR ''a'')))" by (rule a_no_NUL)
  show "NUL \<notin> set (drop 4095 (HttpResponse.body (init_response garbage_response)))"
    by (simp only: garbage_tail) (simp add: NUL_def)
qed

section \<open>Facts about the conversion of numbers\<close>

lemma length_digits: "0 < k \<Longrightarrow> n < 10 ^ k \<Longrightarrow> length (digits n) \<le> k"
proof (induction n arbitrary: k rule: digits.induct)
  case (1 n)
  show ?case
  proof (cases "n < 10")
    case True
    with "1.prems" show ?thesis by (simp add: digits.simps [of n])
  next
    case False
    from "1.prems" obtain j where j: "k = Suc j" by (cases k) auto
    from False "1.prems" j have "0 < j" by (cases j) auto
    moreover from "1.prems" j have "n div 10 < 10 ^ j"
      by (simp add: less_mult_imp_div_less mult.commute)
    ultimately have "length (digits (n div 10)) \<le> j"
      using "1.IH" [OF False] by blast
    with False j show ?thesis by (simp add: digits.simps [of n])
  qed
qed

lemma length_print_d:
  assumes "- 2147483648 \<le> i" and "i \<le> 2147483647"
  shows "length (print_d i) \<le> 11"
proof -
  have "length (digits (nat \<bar>i\<bar>)) \<le> 10"
    using assms by (intro length_digits) auto
  then show ?thesis by (auto simp: print_d_def abs_if)
qed

lemma length_get_status_text: "length (get_status_text code) \<le> 21"
  by (simp add: get_status_text_def)

lemma print_d_examples: "print_d 201 = ''201'' \<and> print_d 200 = ''200'' \<and> print_d 8 = ''8'' \<and> print_d 0 = ''0''"
  by (simp add: print_d_def digits.simps)

section \<open>Facts about serialisation\<close>

lemma send_response_format:
  assumes "length (HttpResponse.body res) = 4096" and "strlen (HttpResponse.body res) \<noteq> None"
    and "length (content_type res) \<le> 63"
    and "- 2147483648 \<le> status_code res" and "status_code res \<le> 2147483647"
    and "- 2147483648 \<le> HttpResponse.body_length res"
    and "HttpResponse.body_length res \<le> 2147483647"
  shows "send_response res =
        Some (''HTTP/1.1 '' @ print_d (status_code res) @ '' '' @
                get_status_text (status_code res) @ [CR, LF] @
              ''Content-Type: '' @ content_type res @ [CR, LF] @
              ''Content-Length: '' @ print_d (HttpResponse.body_length res) @ [CR, LF] @
              ''Connection: close'' @ [CR, LF] @
              [CR, LF] @
              c_str (HttpResponse.body res))"
proof -
  from assms(2) have "NUL \<in> set (HttpResponse.body res)"
    by (auto simp: strlen_def split: if_splits)
  with assms(1) have b: "length (c_str (HttpResponse.body res)) < 4096"
    using length_c_str_less [of "HttpResponse.body res"] by simp
  from assms have s: "length (print_d (status_code res)) \<le> 11"
    by (intro length_print_d) auto
  from assms have l: "length (print_d (HttpResponse.body_length res)) \<le> 11"
    by (intro length_print_d) auto
  have t: "length (get_status_text (status_code res)) \<le> 21"
    by (rule length_get_status_text)
  from assms(2) obtain n where n: "strlen (HttpResponse.body res) = Some n" by auto
  from assms(3) b s l t show ?thesis
    by (simp add: send_response_def n Let_def)
qed

lemma send_after_short_content:
  assumes "length (HttpResponse.body res0) = 4096" and "length content < 4095"
    and "NUL \<notin> set content" and "length ct \<le> 63"
    and "- 2147483648 \<le> status" and "status \<le> 2147483647"
  shows "send_response
           (res0\<lparr>status_code := status, content_type := ct,
                 HttpResponse.body := strncpy (HttpResponse.body res0) content 4095,
                 HttpResponse.body_length := int (length content)\<rparr>) =
        Some (''HTTP/1.1 '' @ print_d status @ '' '' @ get_status_text status @ [CR, LF] @
              ''Content-Type: '' @ ct @ [CR, LF] @
              ''Content-Length: '' @ print_d (int (length content)) @ [CR, LF] @
              ''Connection: close'' @ [CR, LF] @
              [CR, LF] @
              content)"
proof -
  let ?res = "res0\<lparr>status_code := status, content_type := ct,
                 HttpResponse.body := strncpy (HttpResponse.body res0) content 4095,
                 HttpResponse.body_length := int (length content)\<rparr>"
  have "send_response ?res =
        Some (''HTTP/1.1 '' @ print_d (status_code ?res) @ '' '' @
                get_status_text (status_code ?res) @ [CR, LF] @
              ''Content-Type: '' @ content_type ?res @ [CR, LF] @
              ''Content-Length: '' @ print_d (HttpResponse.body_length ?res) @ [CR, LF] @
              ''Connection: close'' @ [CR, LF] @
              [CR, LF] @
              c_str (HttpResponse.body ?res))"
    using assms
    by (intro send_response_format) (simp_all add: length_strncpy strlen_strncpy_short)
  with assms(2,3) show ?thesis by (simp add: c_str_strncpy_short)
qed

lemma send_after_setters:
  assumes "length (HttpResponse.body res0) = 4096" and "length content < 4095"
    and "NUL \<notin> set content"
    and "- 2147483648 \<le> status" and "status \<le> 2147483647"
  shows "\<exists>j t h.
      set_json_response res0 status content = Some j \<and>
      set_text_response res0 status content = Some t \<and>
      set_html_response res0 status content = Some h \<and>
      send_response j =
        Some (''HTTP/1.1 '' @ print_d status @ '' '' @ get_status_text status @ [CR, LF] @
              ''Content-Type: application/json'' @ [CR, LF] @
              ''Content-Length: '' @ print_d (int (length content)) @ [CR, LF] @
              ''Connection: close'' @ [CR, LF] @ [CR, LF] @ content) \<and>
      send_response t =
        Some (''HTTP/1.1 '' @ print_d status @ '' '' @ get_status_text status @ [CR, LF] @
              ''Content-Type: text/plain'' @ [CR, LF] @
              ''Content-Length: '' @ print_d (int (length content)) @ [CR, LF] @
              ''Connection: close'' @ [CR, LF] @ [CR, LF] @ content) \<and>
      send_response h =
        Some (''HTTP/1.1 '' @ print_d status @ '' '' @ get_status_text status @ [CR, LF] @
              ''Content-Type: text/html'' @ [CR, LF] @
              ''Content-Length: '' @ print_d (int (length content)) @ [CR, LF] @
              ''Connection: close'' @ [CR, LF] @ [CR, LF] @ content)"
proof -
  have j: "set_json_response res0 status content =
      Some (res0\<lparr>status_code := status, content_type := ''application/json'',
                  HttpResponse.body := strncpy (HttpResponse.body res0) content 4095,
                  HttpResponse.body_length := int (length content)\<rparr>)"
    using assms(2,3) by (simp add: set_json_response_def strlen_strncpy_short)
  have t: "set_text_response res0 status content =
      Some (res0\<lparr>status_code := status, content_type := ''text/plain'',
                  HttpResponse.body := strncpy (HttpResponse.body res0) content 4095,
                  HttpResponse.body_length := int (length content)\<rparr>)"
    using assms(2,3) by (simp add: set_text_response_def strlen_strncpy_short)
  have h: "set_html_response res0 status content =
      Some (res0\<lparr>status_code := status, content_type := ''text/html'',
                  HttpResponse.body := strncpy (HttpResponse.body res0) content 4095,
                  HttpResponse.body_length := int (length content)\<rparr>)"
    using assms(2,3) by (simp add: set_html_response_def strlen_strncpy_short)
  have sj: "length ''application/json'' \<le> 63" by simp
  have st: "length ''text/plain'' \<le> 63" by simp
  have sh: "length ''text/html'' \<le> 63" by simp
  show ?thesis
    unfolding j t h
    using send_after_short_content [OF assms(1,2,3) sj assms(4,5)]
      send_after_short_content [OF assms(1,2,3) st assms(4,5)]
      send_after_short_content [OF assms(1,2,3) sh assms(4,5)]
    by simp
qed

section \<open>Facts about the routing system\<close>

lemma find_handler_loop_first:
  "i < length rs \<Longrightarrow> route_matches (rs ! i) req \<Longrightarrow>
   \<forall>j<i. \<not> route_matches (rs ! j) req \<Longrightarrow>
   find_handler_loop rs req = handler (rs ! i)"
proof (induction rs arbitrary: i)
  case Nil
  then show ?case by simp
next
  case (Cons r rs)
  show ?case
  proof (cases i)
    case 0
    with Cons.prems show ?thesis by simp
  next
    case (Suc k)
    from Cons.prems Suc have "\<not> route_matches r req" by auto
    moreover from Cons.prems Suc have "\<forall>j<k. \<not> route_matches (rs ! j) req" by auto
    moreover from Cons.prems Suc have "k < length rs" "route_matches (rs ! k) req" by auto
    ultimately show ?thesis using Cons.IH [of k] Suc by simp
  qed
qed

lemma find_handler_loop_none:
  "\<forall>r\<in>set rs. \<not> route_matches r req \<Longrightarrow> find_handler_loop rs req = handle_not_found"
  by (induction rs) auto

lemma middleware_loop_append:
  "middleware_loop (before @ later) req res w =
     (case middleware_loop before req res w of
        None \<Rightarrow> None
      | Some (continue, req1, res1, w1) \<Rightarrow>
          if continue then middleware_loop later req1 res1 w1
          else Some (False, req1, res1, w1))"
  by (induction before arbitrary: req res w) (auto split: option.splits)

lemma handle_not_found_result:
  "handle_not_found req res w =
     Some (req,
       res\<lparr>status_code := 404, content_type := ''application/json'',
           HttpResponse.body :=
             strncpy (HttpResponse.body res) ''{\"error\": \"Route not found\"}'' 4095,
           HttpResponse.body_length := 28\<rparr>, w)"
  by (simp add: handle_not_found_def set_json_response_short NUL_def)

lemma register_route_below_capacity:
  "route_count srv < 50 \<Longrightarrow>
   routes (register_route srv m p h) =
     routes srv @ [\<lparr>Route.method' = m, Route.path = take 255 p, handler = h\<rparr>] \<and>
   middleware (register_route srv m p h) = middleware srv"
  by (simp add: register_route_def MAX_ROUTES_def)

lemma register_route_path_length:
  "\<forall>r\<in>set (routes srv). length (Route.path r) \<le> 255 \<Longrightarrow>
   \<forall>r\<in>set (routes (register_route srv m p h)). length (Route.path r) \<le> 255"
  by (auto simp: register_route_def)

lemma register_middleware_below_capacity:
  "middleware_count srv < 10 \<Longrightarrow>
   middleware (register_middleware srv mw) = middleware srv @ [mw] \<and>
   routes (register_middleware srv mw) = routes srv"
  by (simp add: register_middleware_def MAX_MIDDLEWARE_def)

lemma routes_funpow:
  "n \<le> 50 \<Longrightarrow>
   routes (((\<lambda>s. register_route s m p h) ^^ n) server0) =
     replicate n \<lparr>Route.method' = m, Route.path = take 255 p, handler = h\<rparr>"
  by (induction n)
     (simp_all add: server0_def register_route_def route_count_def MAX_ROUTES_def
        replicate_append_same)

lemma middleware_funpow_route:
  "middleware (((\<lambda>s. register_route s m p h) ^^ n) srv) = middleware srv"
  by (induction n) (simp_all add: register_route_def)

lemma routes_funpow_middleware:
  "routes (((\<lambda>s. register_middleware s g) ^^ n) srv) = routes srv"
  by (induction n) (simp_all add: register_middleware_def)

lemma middleware_funpow:
  "n \<le> 10 \<Longrightarrow> middleware srv = [] \<Longrightarrow>
   middleware (((\<lambda>s. register_middleware s g) ^^ n) srv) = replicate n g"
  by (induction n)
     (simp_all add: register_middleware_def middleware_count_def MAX_MIDDLEWARE_def
        replicate_append_same)

lemma full_server_counts:
  "route_count full_server = 50 \<and> middleware_count full_server = 10"
proof -
  have "routes full_server =
          replicate 50 \<lparr>Route.method' = GET, Route.path = take 255 ''/r'', handler = count_handler\<rparr>"
    unfolding full_server_def by (simp only: routes_funpow_middleware routes_funpow order_refl)
  moreover have "middleware full_server = replicate 10 count_gate"
    unfolding full_server_def
    by (rule middleware_funpow) (simp_all add: middleware_funpow_route server0_def)
  ultimately show ?thesis by (simp add: route_count_def middleware_count_def)
qed

lemma parse_get_requests:
  "parse_request (raw_get ''/api/users'') zero_request = Some (get_request ''/api/users'') \<and>
   parse_request (raw_get ''/api/users/7'') zero_request = Some (get_request ''/api/users/7'') \<and>
   parse_request (raw_get ''/api/users/me'') zero_request = Some (get_request ''/api/users/me'') \<and>
   parse_request (raw_get ''/missing'') zero_request = Some (get_request ''/missing'') \<and>
   parse_request (raw_get ''/admin'') zero_request = Some (get_request ''/admin'')"
  by (simp add: parse_request_def sscanf_request_line_def scan_word_def isspace_def raw_get_def
        zero_request_def get_request_def CR_def LF_def parse_method_def strcmp_eq_def)

lemma users_server_routes:
  "routes users_server =
     [\<lparr>Route.method' = GET, Route.path = ''/api/users'', handler = handle_admin\<rparr>,
      \<lparr>Route.method' = POST, Route.path = ''/api/users/:id'', handler = handle_admin\<rparr>,
      \<lparr>Route.method' = GET, Route.path = ''/api/users/:id'', handler = count_handler\<rparr>,
      \<lparr>Route.method' = GET, Route.path = ''/api/users/7'', handler = handle_admin\<rparr>] \<and>
   middleware users_server = []"
  by (simp add: users_server_def register_route_def route_count_def MAX_ROUTES_def server0_def)

lemma users_server_matches:
  "\<not> route_matches (routes users_server ! 0) (get_request ''/api/users/7'') \<and>
   \<not> route_matches (routes users_server ! 1) (get_request ''/api/users/7'') \<and>
   route_matches (routes users_server ! 2) (get_request ''/api/users/7'') \<and>
   (\<forall>r\<in>set (routes users_server). \<not> route_matches r (get_request ''/missing''))"
  by (simp add: users_server_routes route_matches_def get_request_def
        path_matches_def strcmp_eq_def strncmp_eq_def)

lemma shadow_server_routes:
  "routes shadow_server =
     [\<lparr>Route.method' = GET, Route.path = ''/api/users/:id'', handler = param_handler\<rparr>,
      \<lparr>Route.method' = GET, Route.path = ''/api/users/me'', handler = literal_handler\<rparr>] \<and>
   middleware shadow_server = []"
  by (simp add: shadow_server_def register_route_def route_count_def MAX_ROUTES_def server0_def)

lemma gated_server_routes:
  "routes gated_server =
     [\<lparr>Route.method' = GET, Route.path = ''/admin'', handler = handle_admin\<rparr>] \<and>
   middleware gated_server = [auth_middleware]"
  by (simp add: gated_server_def register_route_def register_middleware_def route_count_def
        middleware_count_def MAX_ROUTES_def MAX_MIDDLEWARE_def server0_def)

lemma param_handler_result:
  "param_handler req res w =
     Some (req,
       res\<lparr>status_code := 404, content_type := ''application/json'',
           HttpResponse.body :=
             strncpy (HttpResponse.body res) ''{\"error\": \"User not found\"}'' 4095,
           HttpResponse.body_length := 27\<rparr>, w)"
  by (simp add: param_handler_def set_json_response_short NUL_def)

lemma literal_handler_result:
  "literal_handler req res w =
     Some (req,
       res\<lparr>status_code := 200, content_type := ''application/json'',
           HttpResponse.body := strncpy (HttpResponse.body res) ''{\"id\": \"me\"}'' 4095,
           HttpResponse.body_length := 12\<rparr>, w)"
  by (simp add: literal_handler_def set_json_response_short NUL_def)

lemma handle_admin_result:
  "handle_admin req res w =
     Some (req,
       res\<lparr>status_code := 200, content_type := ''application/json'',
           HttpResponse.body :=
             strncpy (HttpResponse.body res) ''{\"message\": \"Welcome to admin panel\"}'' 4095,
           HttpResponse.body_length := 37\<rparr>, w)"
  by (simp add: handle_admin_def set_json_response_short NUL_def)

section \<open>Facts about the authorisation gate\<close>

lemma strstr_None_iff: "strstr hay needle = None \<longleftrightarrow> \<not> sublist needle hay"
proof (induction hay)
  case Nil
  show ?case by simp
next
  case (Cons c cs)
  show ?case
  proof (cases "prefix needle (c # cs)")
    case True
    then show ?thesis using prefix_imp_sublist by auto
  next
    case False
    with Cons show ?thesis by (simp add: sublist_Cons_right)
  qed
qed

lemma strncmp_eq_whole: "strncmp_eq p q (length q) \<longleftrightarrow> prefix q p"
proof
  assume "strncmp_eq p q (length q)"
  then have "take (length q) p = q" by (simp add: strncmp_eq_def)
  then show "prefix q p" by (metis take_is_prefix)
next
  assume "prefix q p"
  then show "strncmp_eq p q (length q)"
    by (simp add: strncmp_eq_def take_length_prefix)
qed

lemma strncmp_eq_admin: "strncmp_eq p ''/admin'' 6 \<longleftrightarrow> prefix ''/admin'' p"
proof -
  have "length ''/admin'' = 6" by simp
  then show ?thesis using strncmp_eq_whole [of p "''/admin''"] by (simp only:)
qed

lemma auth_middleware_stops:
  assumes "prefix ''/admin'' (HttpRequest.path req)"
    and "\<not> sublist ''Authorization:'' (headers req)"
  shows "auth_middleware req res w =
           Some (False, req,
             res\<lparr>status_code := 401, content_type := ''application/json'',
                 HttpResponse.body :=
                   strncpy (HttpResponse.body res) ''{\"error\": \"Unauthorized\"}'' 4095,
                 HttpResponse.body_length := 25\<rparr>, w)"
proof -
  from assms(1) have "strncmp_eq (HttpRequest.path req) ''/admin'' 6"
    by (simp only: strncmp_eq_admin)
  moreover from assms(2) have "strstr (headers req) ''Authorization:'' = None"
    by (simp add: strstr_None_iff)
  ultimately show ?thesis
    by (simp add: auth_middleware_def set_json_response_short NUL_def)
qed

lemma auth_middleware_passes:
  "\<not> prefix ''/admin'' (HttpRequest.path req) \<or> sublist ''Authorization:'' (headers req) \<Longrightarrow>
   auth_middleware req res w = Some (True, req, res, w)"
  by (auto simp: auth_middleware_def strncmp_eq_admin strstr_None_iff)

lemma parse_admin_raw: "parse_request admin_raw zero_request = Some admin_request"
  by (simp add: parse_request_def sscanf_request_line_def scan_word_def isspace_def admin_raw_def
      zero_request_def admin_request_def CR_def LF_def parse_method_def strcmp_eq_def)

lemma admin_request_unauthorized:
  "prefix ''/admin'' (HttpRequest.path admin_request) \<and>
   \<not> sublist ''Authorization:'' (headers admin_request)"
proof -
  have "strstr admin_raw ''Authorization:'' = None"
    by (simp add: admin_raw_def CR_def LF_def)
  then show ?thesis by (simp add: admin_request_def strstr_None_iff)
qed

lemma admin_server_middleware:
  "middleware admin_server = [logger_middleware fixed_ctime, auth_middleware, cors_middleware]"
  by (simp add: admin_server_def register_route_def register_middleware_def server0_def
        middleware_count_def route_count_def MAX_ROUTES_def MAX_MIDDLEWARE_def)

lemma admin_logger:
  "logger_middleware fixed_ctime admin_request res \<lparr>clock = 0, stdout = []\<rparr> =
     Some (True, admin_request, res,
       \<lparr>clock = 0, stdout = ''[Thu Jan  1 00:00:00 1970] GET /admin/panel'' @ [LF]\<rparr>)"
  by (simp add: logger_middleware_def fixed_ctime_def admin_request_def)

lemma parse_authorized_raw: "parse_request authorized_raw zero_request = Some authorized_request"
  by (simp add: parse_request_def sscanf_request_line_def scan_word_def isspace_def
        authorized_raw_def zero_request_def authorized_request_def CR_def LF_def
        parse_method_def strcmp_eq_def)

lemma admin_users_server_routes:
  "routes admin_users_server =
     [\<lparr>Route.method' = GET, Route.path = ''/admin'', handler = handle_admin\<rparr>,
      \<lparr>Route.method' = GET, Route.path = ''/admin/users'', handler = count_handler\<rparr>] \<and>
   middleware admin_users_server = [auth_middleware]"
  by (simp add: admin_users_server_def gated_server_routes register_route_def route_count_def
        MAX_ROUTES_def)

lemma authorized_request_passes:
  "middleware_loop (middleware admin_users_server) authorized_request res (w :: nat) =
     Some (True, authorized_request, res, w)"
proof -
  have "strstr authorized_raw ''Authorization:'' \<noteq> None"
    by (simp add: authorized_raw_def CR_def LF_def)
  then have "sublist ''Authorization:'' (headers authorized_request)"
    by (simp add: strstr_None_iff authorized_request_def)
  then have "auth_middleware authorized_request res w = Some (True, authorized_request, res, w)"
    by (intro auth_middleware_passes) simp
  then show ?thesis by (simp add: admin_users_server_routes)
qed

lemma authorized_request_first_route:
  "\<not> route_matches (routes admin_users_server ! 0) authorized_request"
  by (simp add: admin_users_server_routes route_matches_def authorized_request_def
        path_matches_def strcmp_eq_def)

text \<open>One round of the server loop on the request for \<open>/admin/panel\<close>, from the bytes
  received to the bytes sent. The status text is \<open>Unknown\<close>: 401 is not in the table of
  \<^verbatim>\<open>get_status_text\<close>.\<close>

lemma serve_connection_admin:
  "serve_connection admin_server admin_raw garbage_response \<lparr>clock = 0, stdout = []\<rparr> =
     Some (''HTTP/1.1 401 Unknown'' @ [CR, LF] @
           ''Content-Type: application/json'' @ [CR, LF] @
           ''Content-Length: 25'' @ [CR, LF] @
           ''Connection: close'' @ [CR, LF] @
           [CR, LF] @
           ''{\"error\": \"Unauthorized\"}'',
           \<lparr>clock = 0, stdout = ''[Thu Jan  1 00:00:00 1970] GET /admin/panel'' @ [LF]\<rparr>)"
proof -
  let ?res = "init_response garbage_response"
  let ?res' = "?res\<lparr>status_code := 401, content_type := ''application/json'',
                 HttpResponse.body :=
                   strncpy (HttpResponse.body ?res) ''{\"error\": \"Unauthorized\"}'' 4095,
                 HttpResponse.body_length := 25\<rparr>"
  let ?w' = "\<lparr>clock = 0, stdout = ''[Thu Jan  1 00:00:00 1970] GET /admin/panel'' @ [LF]\<rparr>"
  have stop: "auth_middleware admin_request ?res ?w' = Some (False, admin_request, ?res', ?w')"
    using admin_request_unauthorized by (intro auth_middleware_stops) auto
  have run: "handle_request admin_server admin_request ?res \<lparr>clock = 0, stdout = []\<rparr> =
      Some (admin_request, ?res', ?w')"
    using stop by (simp add: handle_request_def admin_server_middleware admin_logger)
  have "print_d 401 = ''401'' \<and> print_d 25 = ''25''"
    by (simp add: print_d_def digits.simps)
  then have send: "send_response ?res' =
      Some (''HTTP/1.1 401 Unknown'' @ [CR, LF] @
           ''Content-Type: application/json'' @ [CR, LF] @
           ''Content-Length: 25'' @ [CR, LF] @
           ''Connection: close'' @ [CR, LF] @
           [CR, LF] @
           ''{\"error\": \"Unauthorized\"}'')"
    by (simp add: send_response_def strlen_strncpy_short c_str_strncpy_short NUL_def
          get_status_text_def)
  show ?thesis
    by (simp only: serve_connection_def parse_admin_raw run send option.case prod.case)
qed

section \<open>Path matcher: exact and placeholder matches\<close>

text \<open>
  Claim C3. \<open>path_matches\<close> is true whenever the pattern equals the concrete path. When
  the pattern ends in the placeholder segment \<open>/:id\<close> (and fits the 255 bytes a route
  entry holds), it is true for every concrete path that starts with the part of the
  pattern before the placeholder. So \<open>/api/users/:id\<close> matches \<open>/api/users/123\<close> and
  \<open>/api/users/123/extra\<close>, and does not match \<open>/other\<close>.
\<close>

theorem path_matches_exact_and_placeholder:
  "path_matches pattern pattern \<and>
   (length (p @ ''/:id'') \<le> 255 \<and> prefix p concrete \<longrightarrow>
      path_matches (p @ ''/:id'') concrete) \<and>
   path_matches ''/api/users/:id'' ''/api/users/123'' \<and>
   path_matches ''/api/users/:id'' ''/api/users/123/extra'' \<and>
   \<not> path_matches ''/api/users/:id'' ''/other''"
proof -
  have exact: "path_matches pattern pattern"
    by (simp add: path_matches_def strcmp_eq_def)
  have placeholder:
    "length (p @ ''/:id'') \<le> 255 \<and> prefix p concrete \<longrightarrow>
       path_matches (p @ ''/:id'') concrete"
    using path_matches_placeholder [of p concrete] by blast
  have e1: "path_matches ''/api/users/:id'' ''/api/users/123''"
    using path_matches_placeholder [of "''/api/users''" "''/api/users/123''"] by simp
  have e2: "path_matches ''/api/users/:id'' ''/api/users/123/extra''"
    using path_matches_placeholder [of "''/api/users''" "''/api/users/123/extra''"] by simp
  have e3: "\<not> path_matches ''/api/users/:id'' ''/other''"
    by (simp add: path_matches_def strcmp_eq_def strncmp_eq_def)
  from exact placeholder e1 e2 e3 show ?thesis by blast
qed

theorem path_matches_exact_and_placeholder_witness:
  "path_matches ''/admin'' ''/admin'' \<and>
   path_matches (''/api/items'' @ ''/:id'') ''/api/items/42''"
  using path_matches_exact_and_placeholder [of "''/admin''" "''/api/items''" "''/api/items/42''"]
  by simp

text \<open>
  Claim C9. The placeholder match has no segment boundary: a pattern that ends in
  \<open>/:id\<close> (within the 255 bytes of a route entry) matches the bare prefix itself and
  the prefix followed by any bytes at all. So \<open>/api/users/:id\<close> matches \<open>/api/users\<close>
  and \<open>/api/usersXYZ\<close>.
\<close>

theorem path_matches_no_segment_boundary:
  "(length (p @ ''/:id'') \<le> 255 \<longrightarrow>
      path_matches (p @ ''/:id'') p \<and> path_matches (p @ ''/:id'') (p @ rest)) \<and>
   path_matches ''/api/users/:id'' ''/api/users'' \<and>
   path_matches ''/api/users/:id'' ''/api/usersXYZ''"
proof -
  have general:
    "length (p @ ''/:id'') \<le> 255 \<longrightarrow>
       path_matches (p @ ''/:id'') p \<and> path_matches (p @ ''/:id'') (p @ rest)"
    using path_matches_placeholder [of p p] path_matches_placeholder [of p "p @ rest"]
    by simp
  have e1: "path_matches ''/api/users/:id'' ''/api/users''"
    using path_matches_placeholder [of "''/api/users''" "''/api/users''"] by simp
  have e2: "path_matches ''/api/users/:id'' ''/api/usersXYZ''"
    using path_matches_placeholder [of "''/api/users''" "''/api/usersXYZ''"] by simp
  from general e1 e2 show ?thesis by blast
qed

theorem path_matches_no_segment_boundary_witness:
  "path_matches (''/files'' @ ''/:id'') ''/files'' \<and>
   path_matches (''/files'' @ ''/:id'') (''/files'' @ ''.bak'')"
  using path_matches_no_segment_boundary [of "''/files''" "''.bak''"]
  by simp

section \<open>Registration at capacity\<close>

text \<open>
  Claim C10. Registering a route when the table holds 50 routes leaves the server,
  its routes and its route count as they were; registering a middleware gate when the
  chain holds 10 gates leaves the server, its chain and its count as they were. The
  functions return nothing, so no error is signalled.
\<close>

theorem register_beyond_capacity_noop:
  "(route_count srv = 50 \<longrightarrow>
      register_route srv m p h = srv \<and>
      routes (register_route srv m p h) = routes srv \<and>
      route_count (register_route srv m p h) = route_count srv) \<and>
   (middleware_count srv = 10 \<longrightarrow>
      register_middleware srv mw = srv \<and>
      middleware (register_middleware srv mw) = middleware srv \<and>
      middleware_count (register_middleware srv mw) = middleware_count srv)"
proof -
  have r: "route_count srv = 50 \<longrightarrow> register_route srv m p h = srv"
    by (simp add: register_route_def MAX_ROUTES_def)
  have g: "middleware_count srv = 10 \<longrightarrow> register_middleware srv mw = srv"
    by (simp add: register_middleware_def MAX_MIDDLEWARE_def)
  from r g show ?thesis by simp
qed

theorem register_beyond_capacity_noop_witness:
  "route_count full_server = 50 \<and>
   register_route full_server POST ''/api/new'' handle_not_found = full_server \<and>
   middleware_count full_server = 10 \<and>
   register_middleware full_server stop_gate = full_server"
  using register_beyond_capacity_noop
          [of full_server POST "''/api/new''" handle_not_found stop_gate]
    full_server_counts
  by simp

section \<open>Route lookup\<close>

text \<open>
  Claim C1. \<open>find_handler\<close> returns the handler of the first route, in registration
  order, whose method equals the request's and whose pattern matches the request's
  path. When no registered route matches, it returns the fallback \<open>handle_not_found\<close>;
  that handler leaves status 404 and the body \<open>{"error": "Route not found"}\<close>, and it
  is what the dispatcher runs once the middleware chain has let the request through.
\<close>

theorem find_handler_first_match:
  "(i < length (routes srv) \<and> route_matches (routes srv ! i) req \<and>
      (\<forall>j<i. \<not> route_matches (routes srv ! j) req) \<longrightarrow>
      find_handler srv req = handler (routes srv ! i)) \<and>
   ((\<forall>r\<in>set (routes srv). \<not> route_matches r req) \<longrightarrow>
      find_handler srv req = handle_not_found \<and>
      (\<exists>res'. find_handler srv req req res w = Some (req, res', w) \<and>
         status_code res' = 404 \<and>
         c_str (HttpResponse.body res') = ''{\"error\": \"Route not found\"}'' \<and>
         HttpResponse.body_length res' = 28) \<and>
      (middleware_loop (middleware srv) req0 res0 w0 = Some (True, req, res, w) \<longrightarrow>
         handle_request srv req0 res0 w0 = handle_not_found req res w))"
proof -
  have first:
    "i < length (routes srv) \<and> route_matches (routes srv ! i) req \<and>
       (\<forall>j<i. \<not> route_matches (routes srv ! j) req) \<longrightarrow>
     find_handler srv req = handler (routes srv ! i)"
    unfolding find_handler_def using find_handler_loop_first [of i "routes srv" req] by blast
  have fallback:
    "find_handler srv req = handle_not_found"
    if "\<forall>r\<in>set (routes srv). \<not> route_matches r req"
    unfolding find_handler_def using that by (rule find_handler_loop_none)
  have produced:
    "\<exists>res'. handle_not_found req res w = Some (req, res', w) \<and>
       status_code res' = 404 \<and>
       c_str (HttpResponse.body res') = ''{\"error\": \"Route not found\"}'' \<and>
       HttpResponse.body_length res' = 28"
    by (simp add: handle_not_found_result c_str_strncpy_short NUL_def)
  have dispatch:
    "handle_request srv req0 res0 w0 = handle_not_found req res w"
    if "\<forall>r\<in>set (routes srv). \<not> route_matches r req"
      and "middleware_loop (middleware srv) req0 res0 w0 = Some (True, req, res, w)"
    using that fallback by (simp add: handle_request_def)
  from first fallback produced dispatch show ?thesis by (metis (no_types, lifting))
qed

theorem find_handler_first_match_witness:
  "find_handler users_server (get_request ''/api/users/7'') = count_handler \<and>
   find_handler users_server (get_request ''/missing'') = handle_not_found \<and>
   (\<exists>res'. handle_request users_server (get_request ''/missing'')
              (init_response garbage_response) 0 =
            Some (get_request ''/missing'', res', 0) \<and>
      status_code res' = 404 \<and>
      c_str (HttpResponse.body res') = ''{\"error\": \"Route not found\"}'')"
proof -
  let ?hit = "get_request ''/api/users/7''"
  let ?miss = "get_request ''/missing''"
  let ?res = "init_response garbage_response"
  have less2: "\<forall>j<2. \<not> route_matches (routes users_server ! j) ?hit"
    using users_server_matches by (auto simp: less_Suc_eq numeral_2_eq_2)
  have hit: "find_handler users_server ?hit = handler (routes users_server ! 2)"
    using find_handler_first_match [where i = 2 and srv = users_server and req = ?hit]
      users_server_matches less2
    by (simp add: users_server_routes)
  have chain: "middleware_loop (middleware users_server) ?miss ?res (0::nat) =
      Some (True, ?miss, ?res, 0)"
    by (simp add: users_server_routes)
  have miss: "find_handler users_server ?miss = handle_not_found \<and>
      (\<exists>res'. find_handler users_server ?miss ?miss ?res 0 = Some (?miss, res', 0) \<and>
         status_code res' = 404 \<and>
         c_str (HttpResponse.body res') = ''{\"error\": \"Route not found\"}'' \<and>
         HttpResponse.body_length res' = 28) \<and>
      handle_request users_server ?miss ?res 0 = handle_not_found ?miss ?res 0"
    using find_handler_first_match
      [where srv = users_server and req = ?miss and res = ?res and w = 0
         and ?req0.0 = ?miss and ?res0.0 = ?res and ?w0.0 = 0]
      users_server_matches chain
    by blast
  then have "\<exists>res'. handle_request users_server ?miss ?res 0 = Some (?miss, res', 0) \<and>
      status_code res' = 404 \<and>
      c_str (HttpResponse.body res') = ''{\"error\": \"Route not found\"}''"
    by auto
  with hit miss show ?thesis by (simp add: users_server_routes)
qed

section \<open>Middleware chain\<close>

text \<open>
  Claim C2. Gates run in registration order and the first gate that returns false
  ends the request: the dispatcher returns the request, response and world exactly
  as that gate left them, whatever the later gates and the routes are, so no later
  gate and no handler has run. With a gate \<open>G1\<close> that returns false registered before
  \<open>G2\<close>, the result is what \<open>G1\<close> left and \<open>G2\<close> has had no effect; registered in the
  other order, \<open>G2\<close> runs first and its effect is in the result.
\<close>

theorem middleware_first_false_stops:
  "(middleware srv = before @ gate # later \<and>
      middleware_loop before req res w = Some (True, req1, res1, w1) \<and>
      gate req1 res1 w1 = Some (False, req2, res2, w2) \<longrightarrow>
      handle_request srv req res w = Some (req2, res2, w2)) \<and>
   (middleware_count base = 0 \<and> G1 req res w = Some (False, req2, res2, w2) \<longrightarrow>
      handle_request (register_middleware (register_middleware base G1) G2) req res w =
        Some (req2, res2, w2)) \<and>
   (middleware_count base = 0 \<and> G2 req res w = Some (continue, req1, res1, w1) \<and>
      G1 req1 res1 w1 = Some (False, req2, res2, w2) \<longrightarrow>
      handle_request (register_middleware (register_middleware base G2) G1) req res w =
        Some (if continue then (req2, res2, w2) else (req1, res1, w1)))"
proof -
  have stop:
    "handle_request srv req res w = Some (req2, res2, w2)"
    if "middleware srv = before @ gate # later"
      and "middleware_loop before req res w = Some (True, req1, res1, w1)"
      and "gate req1 res1 w1 = Some (False, req2, res2, w2)"
    for srv :: "'a Server" and before gate later req res w req1 res1 w1 req2 res2 w2
    using that by (simp add: handle_request_def middleware_loop_append)
  have two: "middleware (register_middleware (register_middleware base A) B) = [A, B]"
    if "middleware_count base = 0" for A B
    using that
    by (simp add: register_middleware_def middleware_count_def MAX_MIDDLEWARE_def)
  have first:
    "handle_request (register_middleware (register_middleware base G1) G2) req res w =
       Some (req2, res2, w2)"
    if "middleware_count base = 0" and "G1 req res w = Some (False, req2, res2, w2)"
  proof (rule stop)
    show "middleware (register_middleware (register_middleware base G1) G2) = [] @ G1 # [G2]"
      using two [OF that(1)] by simp
    show "middleware_loop [] req res w = Some (True, req, res, w)" by simp
    show "G1 req res w = Some (False, req2, res2, w2)" by (rule that(2))
  qed
  have second:
    "handle_request (register_middleware (register_middleware base G2) G1) req res w =
       Some (if continue then (req2, res2, w2) else (req1, res1, w1))"
    if "middleware_count base = 0" and "G2 req res w = Some (continue, req1, res1, w1)"
      and "G1 req1 res1 w1 = Some (False, req2, res2, w2)"
  proof (cases continue)
    case True
    have "handle_request (register_middleware (register_middleware base G2) G1) req res w =
            Some (req2, res2, w2)"
    proof (rule stop)
      show "middleware (register_middleware (register_middleware base G2) G1) = [G2] @ G1 # []"
        using two [OF that(1)] by simp
      show "middleware_loop [G2] req res w = Some (True, req1, res1, w1)"
        using that(2) True by simp
      show "G1 req1 res1 w1 = Some (False, req2, res2, w2)" by (rule that(3))
    qed
    with True show ?thesis by simp
  next
    case False
    have "handle_request (register_middleware (register_middleware base G2) G1) req res w =
            Some (req1, res1, w1)"
    proof (rule stop)
      show "middleware (register_middleware (register_middleware base G2) G1) = [] @ G2 # [G1]"
        using two [OF that(1)] by simp
      show "middleware_loop [] req res w = Some (True, req, res, w)" by simp
      show "G2 req res w = Some (False, req1, res1, w1)" using that(2) False by simp
    qed
    with False show ?thesis by simp
  qed
  from stop first second show ?thesis by blast
qed

theorem middleware_first_false_stops_witness:
  "handle_request (register_middleware (register_middleware users_server stop_gate) count_gate)
     (get_request ''/api/users/7'') (init_response garbage_response) 0 =
     Some (get_request ''/api/users/7'', init_response garbage_response, 0) \<and>
   handle_request (register_middleware (register_middleware users_server count_gate) stop_gate)
     (get_request ''/api/users/7'') (init_response garbage_response) 0 =
     Some (get_request ''/api/users/7'', init_response garbage_response, 1)"
proof -
  have base: "middleware_count users_server = 0"
    by (simp add: middleware_count_def users_server_routes)
  have g1: "stop_gate (get_request ''/api/users/7'') (init_response garbage_response) w =
      Some (False, get_request ''/api/users/7'', init_response garbage_response, w)" for w
    by (simp add: stop_gate_def)
  have g2: "count_gate (get_request ''/api/users/7'') (init_response garbage_response) 0 =
      Some (True, get_request ''/api/users/7'', init_response garbage_response, 1)"
    by (simp add: count_gate_def)
  show ?thesis
    using middleware_first_false_stops
      [where base = users_server and ?G1.0 = stop_gate and ?G2.0 = count_gate
         and req = "get_request ''/api/users/7''" and res = "init_response garbage_response"
         and w = 0 and ?req2.0 = "get_request ''/api/users/7''"
         and ?res2.0 = "init_response garbage_response" and ?w2.0 = 0]
      middleware_first_false_stops
      [where base = users_server and ?G1.0 = stop_gate and ?G2.0 = count_gate
         and continue = True
         and req = "get_request ''/api/users/7''" and res = "init_response garbage_response"
         and w = 0 and ?req1.0 = "get_request ''/api/users/7''"
         and ?res1.0 = "init_response garbage_response" and ?w1.0 = 1
         and ?req2.0 = "get_request ''/api/users/7''"
         and ?res2.0 = "init_response garbage_response" and ?w2.0 = 1]
      base g1 [of 0] g1 [of 1] g2
    by simp
qed

section \<open>Unauthorised access\<close>

text \<open>
  Claim C7. For a request whose path begins with \<open>/admin\<close> and whose header text does
  not contain \<open>Authorization:\<close>, the authorisation gate returns false and leaves status
  401 with the body \<open>{"error": "Unauthorized"}\<close>. In every chain where the gates before
  it let the request through, and in the chain that \<^verbatim>\<open>setup_routes\<close> registers (logger,
  authorisation, CORS), the dispatcher returns exactly that: the response and the
  world are as the authorisation gate left them, so no later gate and no handler has
  run.
\<close>

theorem auth_gate_unauthorized:
  "prefix ''/admin'' (HttpRequest.path req) \<and> \<not> sublist ''Authorization:'' (headers req) \<longrightarrow>
     (\<exists>res'. status_code res' = 401 \<and>
        c_str (HttpResponse.body res') = ''{\"error\": \"Unauthorized\"}'' \<and>
        HttpResponse.body_length res' = 25 \<and>
        auth_middleware req res w = Some (False, req, res', w) \<and>
        (middleware srv = before @ auth_middleware # later \<and>
           middleware_loop before req0 res0 w0 = Some (True, req, res, w) \<longrightarrow>
           handle_request srv req0 res0 w0 = Some (req, res', w)) \<and>
        (middleware psrv = [logger_middleware ctime, auth_middleware, cors_middleware] \<and>
           logger_middleware ctime req res pw = Some (True, req, res, pw') \<longrightarrow>
           handle_request psrv req res pw = Some (req, res', pw')))"
proof (intro impI, elim conjE)
  assume admin: "prefix ''/admin'' (HttpRequest.path req)"
    and noauth: "\<not> sublist ''Authorization:'' (headers req)"
  let ?res' = "res\<lparr>status_code := 401, content_type := ''application/json'',
                 HttpResponse.body :=
                   strncpy (HttpResponse.body res) ''{\"error\": \"Unauthorized\"}'' 4095,
                 HttpResponse.body_length := 25\<rparr>"
  have stops: "auth_middleware req res v = Some (False, req, ?res', v)" for v :: 'v
    using admin noauth by (rule auth_middleware_stops)
  have body: "c_str (HttpResponse.body ?res') = ''{\"error\": \"Unauthorized\"}''"
    by (simp add: c_str_strncpy_short NUL_def)
  have general: "handle_request srv req0 res0 w0 = Some (req, ?res', w)"
    if "middleware srv = before @ auth_middleware # later"
      and "middleware_loop before req0 res0 w0 = Some (True, req, res, w)"
    using that stops [of w] by (simp add: handle_request_def middleware_loop_append)
  have program: "handle_request psrv req res pw = Some (req, ?res', pw')"
    if "middleware psrv = [logger_middleware ctime, auth_middleware, cors_middleware]"
      and "logger_middleware ctime req res pw = Some (True, req, res, pw')"
    using that stops [of pw'] by (simp add: handle_request_def)
  show "\<exists>res'. status_code res' = 401 \<and>
        c_str (HttpResponse.body res') = ''{\"error\": \"Unauthorized\"}'' \<and>
        HttpResponse.body_length res' = 25 \<and>
        auth_middleware req res w = Some (False, req, res', w) \<and>
        (middleware srv = before @ auth_middleware # later \<and>
           middleware_loop before req0 res0 w0 = Some (True, req, res, w) \<longrightarrow>
           handle_request srv req0 res0 w0 = Some (req, res', w)) \<and>
        (middleware psrv = [logger_middleware ctime, auth_middleware, cors_middleware] \<and>
           logger_middleware ctime req res pw = Some (True, req, res, pw') \<longrightarrow>
           handle_request psrv req res pw = Some (req, res', pw'))"
    apply (rule exI [of _ ?res'])
    using stops [of w] body general program apply simp
    done
qed

theorem auth_gate_unauthorized_witness:
  "parse_request admin_raw zero_request = Some admin_request \<and>
   (\<exists>res'. status_code res' = 401 \<and>
      c_str (HttpResponse.body res') = ''{\"error\": \"Unauthorized\"}'' \<and>
      handle_request admin_server admin_request (init_response garbage_response)
          \<lparr>clock = 0, stdout = []\<rparr> =
        Some (admin_request, res',
          \<lparr>clock = 0, stdout = ''[Thu Jan  1 00:00:00 1970] GET /admin/panel'' @ [LF]\<rparr>))"
proof -
  let ?w = "\<lparr>clock = 0, stdout = []\<rparr>"
  let ?w' = "\<lparr>clock = 0, stdout = ''[Thu Jan  1 00:00:00 1970] GET /admin/panel'' @ [LF]\<rparr>"
  have "\<exists>res'. status_code res' = 401 \<and>
      c_str (HttpResponse.body res') = ''{\"error\": \"Unauthorized\"}'' \<and>
      handle_request admin_server admin_request (init_response garbage_response) ?w =
        Some (admin_request, res', ?w')"
    using auth_gate_unauthorized
      [where req = admin_request and res = "init_response garbage_response"
         and w = ?w' and srv = admin_server and before = "[logger_middleware fixed_ctime]"
         and later = "[cors_middleware]" and ?req0.0 = admin_request
         and ?res0.0 = "init_response garbage_response" and ?w0.0 = ?w
         and psrv = admin_server and ctime = fixed_ctime and pw = ?w and pw' = ?w']
      admin_request_unauthorized admin_server_middleware
      admin_logger [of "init_response garbage_response"]
    by auto
  with parse_admin_raw show ?thesis by simp
qed

section \<open>Dispatch of an exact literal match\<close>

text \<open>
  Claim C5, as stated, fails: the handler of a route that equals the request's method
  and path is not always the one that runs. With \<open>GET /api/users/:id\<close> registered
  before \<open>GET /api/users/me\<close>, the request \<open>GET /api/users/me\<close> is answered by the
  handler of the parameterized route, because \<open>find_handler\<close> takes the first match.
  And with the authorisation gate in front of \<open>GET /admin\<close>, a request for \<open>/admin\<close>
  without the header is answered by the gate.
\<close>

theorem exact_match_shadowed_counterexample:
  "parse_request (raw_get ''/api/users/me'') zero_request = Some (get_request ''/api/users/me'') \<and>
   parse_request (raw_get ''/admin'') zero_request = Some (get_request ''/admin'') \<and>
   Route.method' (routes shadow_server ! 1) = HttpRequest.method' (get_request ''/api/users/me'') \<and>
   Route.path (routes shadow_server ! 1) = HttpRequest.path (get_request ''/api/users/me'') \<and>
   handle_request shadow_server (get_request ''/api/users/me'') (init_response garbage_response) 0 =
     param_handler (get_request ''/api/users/me'') (init_response garbage_response) 0 \<and>
   handle_request shadow_server (get_request ''/api/users/me'') (init_response garbage_response) 0 \<noteq>
     handler (routes shadow_server ! 1)
       (get_request ''/api/users/me'') (init_response garbage_response) 0 \<and>
   Route.method' (routes gated_server ! 0) = HttpRequest.method' (get_request ''/admin'') \<and>
   Route.path (routes gated_server ! 0) = HttpRequest.path (get_request ''/admin'') \<and>
   handle_request gated_server (get_request ''/admin'') (init_response garbage_response) 0 \<noteq>
     handler (routes gated_server ! 0)
       (get_request ''/admin'') (init_response garbage_response) 0"
proof -
  let ?req = "get_request ''/api/users/me''"
  let ?res = "init_response garbage_response"
  have match: "route_matches (routes shadow_server ! 0) ?req"
    by (simp add: shadow_server_routes route_matches_def get_request_def
          path_matches_def strcmp_eq_def strncmp_eq_def)
  have run: "handle_request shadow_server ?req ?res 0 = param_handler ?req ?res 0"
    using match
    by (simp add: handle_request_def find_handler_def shadow_server_routes)
  have differ: "param_handler ?req ?res 0 \<noteq> literal_handler ?req ?res 0"
  proof
    assume eq: "param_handler ?req ?res 0 = literal_handler ?req ?res 0"
    show False
      using arg_cong [OF eq, of "map_option (\<lambda>(_, r, _). status_code r)"]
      by (simp add: param_handler_result literal_handler_result)
  qed
  let ?adm = "get_request ''/admin''"
  have stop: "auth_middleware ?adm ?res (0::nat) =
      Some (False, ?adm,
        ?res\<lparr>status_code := 401, content_type := ''application/json'',
             HttpResponse.body :=
               strncpy (HttpResponse.body ?res) ''{\"error\": \"Unauthorized\"}'' 4095,
             HttpResponse.body_length := 25\<rparr>, 0)"
  proof (rule auth_middleware_stops)
    show "prefix ''/admin'' (HttpRequest.path ?adm)" by (simp add: get_request_def)
    have "strstr (raw_get ''/admin'') ''Authorization:'' = None"
      by (simp add: raw_get_def CR_def LF_def)
    then show "\<not> sublist ''Authorization:'' (headers ?adm)"
      by (simp add: get_request_def strstr_None_iff)
  qed
  have gated: "handle_request gated_server ?adm ?res 0 \<noteq> handle_admin ?adm ?res 0"
  proof
    assume eq: "handle_request gated_server ?adm ?res 0 = handle_admin ?adm ?res 0"
    show False
      using arg_cong [OF eq, of "map_option (\<lambda>(_, r, _). status_code r)"]
      by (simp add: handle_request_def gated_server_routes stop handle_admin_result)
  qed
  from run differ gated parse_get_requests show ?thesis
    by (simp add: shadow_server_routes gated_server_routes get_request_def)
qed

text \<open>
  Claim C5, amended. When the request's method and path equal the method and pattern
  of a registered route, no route registered before it matches the request, and the
  middleware chain lets the request through, the dispatcher returns what that route's
  handler produces.
\<close>

theorem exact_match_unshadowed_dispatch:
  "i < length (routes srv) \<and>
   Route.method' (routes srv ! i) = HttpRequest.method' req \<and>
   Route.path (routes srv ! i) = HttpRequest.path req \<and>
   (\<forall>j<i. \<not> route_matches (routes srv ! j) req) \<and>
   middleware_loop (middleware srv) req0 res0 w0 = Some (True, req, res, w) \<longrightarrow>
     handle_request srv req0 res0 w0 = handler (routes srv ! i) req res w"
proof (intro impI, elim conjE)
  assume i: "i < length (routes srv)"
    and m: "Route.method' (routes srv ! i) = HttpRequest.method' req"
    and p: "Route.path (routes srv ! i) = HttpRequest.path req"
    and earlier: "\<forall>j<i. \<not> route_matches (routes srv ! j) req"
    and chain: "middleware_loop (middleware srv) req0 res0 w0 = Some (True, req, res, w)"
  from m p have "route_matches (routes srv ! i) req"
    by (simp add: route_matches_def path_matches_def strcmp_eq_def)
  with i have "find_handler srv req = handler (routes srv ! i)"
    unfolding find_handler_def using earlier by (rule find_handler_loop_first)
  with chain show "handle_request srv req0 res0 w0 = handler (routes srv ! i) req res w"
    by (simp add: handle_request_def)
qed

theorem exact_match_unshadowed_dispatch_witness:
  "parse_request authorized_raw zero_request = Some authorized_request \<and>
   handle_request admin_users_server authorized_request (init_response garbage_response) 0 =
     count_handler authorized_request (init_response garbage_response) 0 \<and>
   count_handler authorized_request (init_response garbage_response) 0 =
     Some (authorized_request, init_response garbage_response, 100)"
proof -
  have earlier: "\<forall>j<1. \<not> route_matches (routes admin_users_server ! j) authorized_request"
    using authorized_request_first_route by simp
  have "handle_request admin_users_server authorized_request (init_response garbage_response) 0 =
      handler (routes admin_users_server ! 1) authorized_request (init_response garbage_response) 0"
    using exact_match_unshadowed_dispatch
      [where i = 1 and srv = admin_users_server and req = authorized_request
         and ?req0.0 = authorized_request
         and res = "init_response garbage_response" and ?res0.0 = "init_response garbage_response"
         and w = 0 and ?w0.0 = 0]
      earlier authorized_request_passes [of "init_response garbage_response" 0]
    by (simp add: admin_users_server_routes authorized_request_def)
  then show ?thesis
    by (simp add: admin_users_server_routes parse_authorized_raw count_handler_def)
qed

section \<open>Serialisation\<close>

text \<open>
  Claim C4, as stated, fails. The body \<open>{"id":4}\<close> has 8 bytes, so the response with
  status 201 and that body is sent with \<open>Content-Length: 8\<close>, not 9. And the number is
  not recomputed from the body: \<open>send_response\<close> prints the field \<open>body_length\<close>, so a
  response whose body is \<open>hello\<close> and whose \<open>body_length\<close> is still 0 is sent with
  \<open>Content-Length: 0\<close>.
\<close>

theorem send_response_content_length_counterexample:
  "set_json_response (init_response garbage_response) 201 ''{\"id\":4}'' = Some created_response \<and>
   send_response created_response =
     Some (''HTTP/1.1 201 Created'' @ [CR, LF] @
           ''Content-Type: application/json'' @ [CR, LF] @
           ''Content-Length: 8'' @ [CR, LF] @
           ''Connection: close'' @ [CR, LF] @
           [CR, LF] @
           ''{\"id\":4}'') \<and>
   send_response created_response \<noteq>
     Some (''HTTP/1.1 201 Created'' @ [CR, LF] @
           ''Content-Type: application/json'' @ [CR, LF] @
           ''Content-Length: 9'' @ [CR, LF] @
           ''Connection: close'' @ [CR, LF] @
           [CR, LF] @
           ''{\"id\":4}'') \<and>
   c_str (HttpResponse.body stale_response) = ''hello'' \<and>
   send_response stale_response =
     Some (''HTTP/1.1 200 OK'' @ [CR, LF] @
           ''Content-Type: text/plain'' @ [CR, LF] @
           ''Content-Length: 0'' @ [CR, LF] @
           ''Connection: close'' @ [CR, LF] @
           [CR, LF] @
           ''hello'')"
  using created_response_set created_response_facts stale_response_facts print_d_examples
  by (simp add: send_response_def get_status_text_def)

text \<open>
  Claim C4, amended. For a response whose body array holds a terminated string (with
  a content type of at most 63 bytes, and status and \<open>body_length\<close> in the range of a C
  \<^verbatim>\<open>int\<close>), the bytes sent are the status line \<open>HTTP/1.1 <status> <status-text>\<close>, the
  headers \<open>Content-Type\<close>, \<open>Content-Length\<close> and \<open>Connection: close\<close>, an empty line and
  the body, where the \<open>Content-Length\<close> value is the field \<open>body_length\<close>. Whenever a
  setter returns, that field is the byte length of the body. A setter called with
  content of fewer than 4095 bytes always returns, and leaves the content as the body
  and its length as \<open>body_length\<close>; the response it leaves is sent with a
  \<open>Content-Length\<close> equal to the byte length of the content. Nothing is said here of
  content of 4095 bytes or more. For status 201 and the body \<open>{"id":4}\<close> the status
  line is \<open>HTTP/1.1 201 Created\<close> and the length is 8.
\<close>

theorem send_response_wire_format:
  "(length (HttpResponse.body res) = 4096 \<and> strlen (HttpResponse.body res) \<noteq> None \<and>
    length (content_type res) \<le> 63 \<and>
    - 2147483648 \<le> status_code res \<and> status_code res \<le> 2147483647 \<and>
    - 2147483648 \<le> HttpResponse.body_length res \<and>
    HttpResponse.body_length res \<le> 2147483647 \<longrightarrow>
      send_response res =
        Some (''HTTP/1.1 '' @ print_d (status_code res) @ '' '' @
                get_status_text (status_code res) @ [CR, LF] @
              ''Content-Type: '' @ content_type res @ [CR, LF] @
              ''Content-Length: '' @ print_d (HttpResponse.body_length res) @ [CR, LF] @
              ''Connection: close'' @ [CR, LF] @
              [CR, LF] @
              c_str (HttpResponse.body res))) \<and>
   (set_json_response res0 status content = Some res \<or>
    set_text_response res0 status content = Some res \<or>
    set_html_response res0 status content = Some res \<longrightarrow>
      HttpResponse.body_length res = int (length (c_str (HttpResponse.body res)))) \<and>
   (length content < 4095 \<longrightarrow>
      (\<exists>j t h.
         set_json_response res0 status content = Some j \<and>
         set_text_response res0 status content = Some t \<and>
         set_html_response res0 status content = Some h \<and>
         HttpResponse.body_length j = int (length (c_str (HttpResponse.body j))) \<and>
         HttpResponse.body_length t = int (length (c_str (HttpResponse.body t))) \<and>
         HttpResponse.body_length h = int (length (c_str (HttpResponse.body h))) \<and>
         (NUL \<notin> set content \<longrightarrow>
            c_str (HttpResponse.body j) = content \<and>
            c_str (HttpResponse.body t) = content \<and>
            c_str (HttpResponse.body h) = content))) \<and>
   (length (HttpResponse.body res0) = 4096 \<and> length content < 4095 \<and> NUL \<notin> set content \<and>
    - 2147483648 \<le> status \<and> status \<le> 2147483647 \<longrightarrow>
      (\<exists>j t h.
         set_json_response res0 status content = Some j \<and>
         set_text_response res0 status content = Some t \<and>
         set_html_response res0 status content = Some h \<and>
         send_response j =
           Some (''HTTP/1.1 '' @ print_d status @ '' '' @ get_status_text status @ [CR, LF] @
                 ''Content-Type: application/json'' @ [CR, LF] @
                 ''Content-Length: '' @ print_d (int (length content)) @ [CR, LF] @
                 ''Connection: close'' @ [CR, LF] @ [CR, LF] @ content) \<and>
         send_response t =
           Some (''HTTP/1.1 '' @ print_d status @ '' '' @ get_status_text status @ [CR, LF] @
                 ''Content-Type: text/plain'' @ [CR, LF] @
                 ''Content-Length: '' @ print_d (int (length content)) @ [CR, LF] @
                 ''Connection: close'' @ [CR, LF] @ [CR, LF] @ content) \<and>
         send_response h =
           Some (''HTTP/1.1 '' @ print_d status @ '' '' @ get_status_text status @ [CR, LF] @
                 ''Content-Type: text/html'' @ [CR, LF] @
                 ''Content-Length: '' @ print_d (int (length content)) @ [CR, LF] @
                 ''Connection: close'' @ [CR, LF] @ [CR, LF] @ content)))"
proof (intro conjI impI)
  assume "length (HttpResponse.body res) = 4096 \<and> strlen (HttpResponse.body res) \<noteq> None \<and>
    length (content_type res) \<le> 63 \<and>
    - 2147483648 \<le> status_code res \<and> status_code res \<le> 2147483647 \<and>
    - 2147483648 \<le> HttpResponse.body_length res \<and>
    HttpResponse.body_length res \<le> 2147483647"
  then show "send_response res =
        Some (''HTTP/1.1 '' @ print_d (status_code res) @ '' '' @
                get_status_text (status_code res) @ [CR, LF] @
              ''Content-Type: '' @ content_type res @ [CR, LF] @
              ''Content-Length: '' @ print_d (HttpResponse.body_length res) @ [CR, LF] @
              ''Connection: close'' @ [CR, LF] @
              [CR, LF] @
              c_str (HttpResponse.body res))"
    by (intro send_response_format) simp_all
next
  assume "set_json_response res0 status content = Some res \<or>
    set_text_response res0 status content = Some res \<or>
    set_html_response res0 status content = Some res"
  then show "HttpResponse.body_length res = int (length (c_str (HttpResponse.body res)))"
    by (rule set_response_body_length)
next
  assume "length content < 4095"
  then show "\<exists>j t h.
         set_json_response res0 status content = Some j \<and>
         set_text_response res0 status content = Some t \<and>
         set_html_response res0 status content = Some h \<and>
         HttpResponse.body_length j = int (length (c_str (HttpResponse.body j))) \<and>
         HttpResponse.body_length t = int (length (c_str (HttpResponse.body t))) \<and>
         HttpResponse.body_length h = int (length (c_str (HttpResponse.body h))) \<and>
         (NUL \<notin> set content \<longrightarrow>
            c_str (HttpResponse.body j) = content \<and>
            c_str (HttpResponse.body t) = content \<and>
            c_str (HttpResponse.body h) = content)"
    by (rule setters_short_content_return)
next
  assume "length (HttpResponse.body res0) = 4096 \<and> length content < 4095 \<and> NUL \<notin> set content \<and>
    - 2147483648 \<le> status \<and> status \<le> 2147483647"
  then show "\<exists>j t h.
         set_json_response res0 status content = Some j \<and>
         set_text_response res0 status content = Some t \<and>
         set_html_response res0 status content = Some h \<and>
         send_response j =
           Some (''HTTP/1.1 '' @ print_d status @ '' '' @ get_status_text status @ [CR, LF] @
                 ''Content-Type: application/json'' @ [CR, LF] @
                 ''Content-Length: '' @ print_d (int (length content)) @ [CR, LF] @
                 ''Connection: close'' @ [CR, LF] @ [CR, LF] @ content) \<and>
         send_response t =
           Some (''HTTP/1.1 '' @ print_d status @ '' '' @ get_status_text status @ [CR, LF] @
                 ''Content-Type: text/plain'' @ [CR, LF] @
                 ''Content-Length: '' @ print_d (int (length content)) @ [CR, LF] @
                 ''Connection: close'' @ [CR, LF] @ [CR, LF] @ content) \<and>
         send_response h =
           Some (''HTTP/1.1 '' @ print_d status @ '' '' @ get_status_text status @ [CR, LF] @
                 ''Content-Type: text/html'' @ [CR, LF] @
                 ''Content-Length: '' @ print_d (int (length content)) @ [CR, LF] @
                 ''Connection: close'' @ [CR, LF] @ [CR, LF] @ content)"
    by (intro send_after_setters) simp_all
qed

theorem send_response_wire_format_witness:
  "set_json_response (init_response garbage_response) 201 ''{\"id\":4}'' = Some created_response \<and>
   send_response created_response =
     Some (''HTTP/1.1 201 Created'' @ [CR, LF] @
           ''Content-Type: application/json'' @ [CR, LF] @
           ''Content-Length: 8'' @ [CR, LF] @
           ''Connection: close'' @ [CR, LF] @
           [CR, LF] @
           ''{\"id\":4}'') \<and>
   HttpResponse.body_length created_response =
     int (length (c_str (HttpResponse.body created_response))) \<and>
   (\<exists>t. set_text_response (init_response garbage_response) 201 ''{\"id\":4}'' = Some t \<and>
      HttpResponse.body_length t = 8 \<and>
      send_response t =
        Some (''HTTP/1.1 201 Created'' @ [CR, LF] @
              ''Content-Type: text/plain'' @ [CR, LF] @
              ''Content-Length: 8'' @ [CR, LF] @
              ''Connection: close'' @ [CR, LF] @
              [CR, LF] @
              ''{\"id\":4}''))"
proof -
  have len: "length (HttpResponse.body (init_response garbage_response)) = 4096"
    by (simp add: init_response_def garbage_response_def)
  have short: "length ''{\"id\":4}'' < 4095 \<and> NUL \<notin> set ''{\"id\":4}''"
    by (simp add: NUL_def)
  note inst = send_response_wire_format
    [where res = created_response and ?res0.0 = "init_response garbage_response"
       and status = 201 and content = "''{\"id\":4}''"]
  have first: "send_response created_response =
     Some (''HTTP/1.1 201 Created'' @ [CR, LF] @
           ''Content-Type: application/json'' @ [CR, LF] @
           ''Content-Length: 8'' @ [CR, LF] @
           ''Connection: close'' @ [CR, LF] @
           [CR, LF] @
           ''{\"id\":4}'') \<and>
     HttpResponse.body_length created_response =
       int (length (c_str (HttpResponse.body created_response)))"
    using inst created_response_set created_response_facts print_d_examples
    by (simp add: get_status_text_def)
  from inst len short obtain j t h where
    t: "set_text_response (init_response garbage_response) 201 ''{\"id\":4}'' = Some t"
      "HttpResponse.body_length t = int (length (c_str (HttpResponse.body t)))"
      "c_str (HttpResponse.body t) = ''{\"id\":4}''"
    by auto
  from inst len short obtain j' t' h' where
    t': "set_text_response (init_response garbage_response) 201 ''{\"id\":4}'' = Some t'"
      "send_response t' =
           Some (''HTTP/1.1 '' @ print_d 201 @ '' '' @ get_status_text 201 @ [CR, LF] @
                 ''Content-Type: text/plain'' @ [CR, LF] @
                 ''Content-Length: '' @ print_d (int (length ''{\"id\":4}'')) @ [CR, LF] @
                 ''Connection: close'' @ [CR, LF] @ [CR, LF] @ ''{\"id\":4}'')"
    by auto
  from t t' have "t' = t" by simp
  with t t' print_d_examples have
    "\<exists>t. set_text_response (init_response garbage_response) 201 ''{\"id\":4}'' = Some t \<and>
      HttpResponse.body_length t = 8 \<and>
      send_response t =
        Some (''HTTP/1.1 201 Created'' @ [CR, LF] @
              ''Content-Type: text/plain'' @ [CR, LF] @
              ''Content-Length: 8'' @ [CR, LF] @
              ''Connection: close'' @ [CR, LF] @
              [CR, LF] @
              ''{\"id\":4}'')"
    by (simp add: get_status_text_def)
  with first created_response_set show ?thesis by blast
qed

section \<open>Splitting the request target\<close>

text \<open>
  Claim C6, as stated, fails: the path field is not always the whole text before the
  first \<open>?\<close>. The field holds 255 bytes, and \<open>parse_request\<close> copies no more. For the
  target \<open>/aaa...a?x=1\<close> with 300 letters the path field is the first 255 bytes of
  the 301 before the \<open>?\<close>.
\<close>

theorem parse_request_path_truncated_counterexample:
  "sscanf_request_line long_raw =
     Some (''GET'', (CHR ''/'' # replicate 300 (CHR ''a'')) @ CHR ''?'' # ''x=1'') \<and>
   map_option HttpRequest.path (parse_request long_raw zero_request) =
     Some (CHR ''/'' # replicate 254 (CHR ''a'')) \<and>
   CHR ''/'' # replicate 254 (CHR ''a'') \<noteq> CHR ''/'' # replicate 300 (CHR ''a'')"
proof -
  have "\<exists>r. parse_request long_raw zero_request = Some r \<and>
          HttpRequest.path r = take 255 (CHR ''/'' # replicate 300 (CHR ''a'')) \<and>
          query_string r = ''x=1''"
    using long_raw_scan by (rule parse_request_query) simp
  then have "map_option HttpRequest.path (parse_request long_raw zero_request) =
      Some (take 255 (CHR ''/'' # replicate 300 (CHR ''a'')))"
    by auto
  moreover have "take 255 (CHR ''/'' # replicate 300 (CHR ''a'')) = CHR ''/'' # replicate 254 (CHR ''a'')"
    by (simp add: take_Cons')
  moreover have "replicate 254 (CHR ''a'') \<noteq> replicate 300 (CHR ''a'')"
    using arg_cong [of "replicate 254 (CHR ''a'')" "replicate 300 (CHR ''a'')" length] by auto
  ultimately show ?thesis using long_raw_scan by simp
qed

text \<open>
  Claim C6, amended. The claim is about the request texts that \<^verbatim>\<open>sscanf\<close> reads within
  its two arrays: a first word (the method) of 1 to 15 bytes and a second word (the
  target) of 1 to 511 bytes. For every such text \<open>parse_request\<close> returns; the path
  field is the first 255 bytes of the target's text before its first \<open>?\<close> and the
  query string is the text after it; when the target has no \<open>?\<close> the path field is
  its first 255 bytes and the query string is empty. The path field of every parsed
  request holds no \<open>?\<close>, and every parsed request comes from such a text. The third
  part says what the two words are for a request line of the usual shape, and the
  fourth that these bounds are exactly where the model of \<^verbatim>\<open>sscanf\<close> has a result.
  Nothing is said here of longer words, which \<^verbatim>\<open>sscanf\<close> writes past the arrays
  (\<open>parse_request_long_target\<close>).
\<close>

theorem parse_request_splits_target:
  "(scan_word raw = (method_str, line_rest) \<and> scan_word line_rest = (target, rest') \<and>
    method_str \<noteq> [] \<and> length method_str \<le> 15 \<and> target \<noteq> [] \<and> length target \<le> 511 \<longrightarrow>
      (\<exists>r. parse_request raw req = Some r \<and>
         CHR ''?'' \<notin> set (HttpRequest.path r) \<and>
         (target = before @ CHR ''?'' # after \<and> CHR ''?'' \<notin> set before \<longrightarrow>
            HttpRequest.path r = take 255 before \<and> query_string r = after) \<and>
         (CHR ''?'' \<notin> set target \<longrightarrow>
            HttpRequest.path r = take 255 target \<and> query_string r = []))) \<and>
   (parse_request raw req = Some r' \<longrightarrow>
      CHR ''?'' \<notin> set (HttpRequest.path r') \<and>
      (\<exists>w1 s1 w2 s2. scan_word raw = (w1, s1) \<and> scan_word s1 = (w2, s2) \<and>
         w1 \<noteq> [] \<and> length w1 \<le> 15 \<and> w2 \<noteq> [] \<and> length w2 \<le> 511)) \<and>
   (m \<noteq> [] \<and> length m < 16 \<and> t \<noteq> [] \<and> length t < 512 \<and>
    (\<forall>c\<in>set (m @ t). \<not> isspace c) \<longrightarrow>
      scan_word (m @ CHR '' '' # t @ CHR '' '' # rest) = (m, CHR '' '' # t @ CHR '' '' # rest) \<and>
      scan_word (CHR '' '' # t @ CHR '' '' # rest) = (t, CHR '' '' # rest) \<and>
      sscanf_request_line (m @ CHR '' '' # t @ CHR '' '' # rest) = Some (m, t)) \<and>
   (sscanf_request_line raw = Some (method_str, target) \<longleftrightarrow>
      (\<exists>s1 s2. scan_word raw = (method_str, s1) \<and> scan_word s1 = (target, s2) \<and>
         method_str \<noteq> [] \<and> length method_str \<le> 15 \<and> target \<noteq> [] \<and> length target \<le> 511))"
proof (intro conjI impI)
  assume a: "scan_word raw = (method_str, line_rest) \<and> scan_word line_rest = (target, rest') \<and>
    method_str \<noteq> [] \<and> length method_str \<le> 15 \<and> target \<noteq> [] \<and> length target \<le> 511"
  then have s: "sscanf_request_line raw = Some (method_str, target)"
    unfolding sscanf_request_line_iff by blast
  then obtain r where r: "parse_request raw req = Some r"
    using parse_request_fields [of raw method_str target req] by blast
  have q: "HttpRequest.path r = take 255 before \<and> query_string r = after"
    if "target = before @ CHR ''?'' # after" and "CHR ''?'' \<notin> set before"
    using parse_request_query [of raw method_str before after req] s r that by auto
  have n: "HttpRequest.path r = take 255 target \<and> query_string r = []"
    if "CHR ''?'' \<notin> set target"
    using parse_request_no_query [of raw method_str target req] s r that by auto
  from r have "CHR ''?'' \<notin> set (HttpRequest.path r)"
    by (rule parse_request_path_no_query_mark)
  with r q n
  show "\<exists>r. parse_request raw req = Some r \<and>
         CHR ''?'' \<notin> set (HttpRequest.path r) \<and>
         (target = before @ CHR ''?'' # after \<and> CHR ''?'' \<notin> set before \<longrightarrow>
            HttpRequest.path r = take 255 before \<and> query_string r = after) \<and>
         (CHR ''?'' \<notin> set target \<longrightarrow>
            HttpRequest.path r = take 255 target \<and> query_string r = [])"
    by blast
next
  assume "parse_request raw req = Some r'"
  then show "CHR ''?'' \<notin> set (HttpRequest.path r')"
    by (rule parse_request_path_no_query_mark)
next
  assume "parse_request raw req = Some r'"
  then obtain w1 w2 where "sscanf_request_line raw = Some (w1, w2)"
    by (auto simp: parse_request_def split: option.splits)
  then show "\<exists>w1 s1 w2 s2. scan_word raw = (w1, s1) \<and> scan_word s1 = (w2, s2) \<and>
         w1 \<noteq> [] \<and> length w1 \<le> 15 \<and> w2 \<noteq> [] \<and> length w2 \<le> 511"
    unfolding sscanf_request_line_iff by blast
next
  assume a: "m \<noteq> [] \<and> length m < 16 \<and> t \<noteq> [] \<and> length t < 512 \<and>
    (\<forall>c\<in>set (m @ t). \<not> isspace c)"
  have sp: "isspace (CHR '' '')" by (simp add: isspace_def)
  from a sp show "scan_word (m @ CHR '' '' # t @ CHR '' '' # rest) =
      (m, CHR '' '' # t @ CHR '' '' # rest)"
    by (intro scan_word_word) auto
  from a sp show "scan_word (CHR '' '' # t @ CHR '' '' # rest) = (t, CHR '' '' # rest)"
    by (simp add: scan_word_skip scan_word_word)
  from a show "sscanf_request_line (m @ CHR '' '' # t @ CHR '' '' # rest) = Some (m, t)"
    using sscanf_request_line_standard [of m t rest] by blast
next
  show "sscanf_request_line raw = Some (method_str, target) \<longleftrightarrow>
      (\<exists>s1 s2. scan_word raw = (method_str, s1) \<and> scan_word s1 = (target, s2) \<and>
         method_str \<noteq> [] \<and> length method_str \<le> 15 \<and> target \<noteq> [] \<and> length target \<le> 511)"
    by (rule sscanf_request_line_iff)
qed

theorem parse_request_splits_target_witness:
  "(\<exists>r. parse_request hello_raw zero_request = Some r \<and>
      CHR ''?'' \<notin> set (HttpRequest.path r) \<and>
      HttpRequest.path r = ''/api/hello'' \<and> query_string r = ''name=Ada'') \<and>
   (\<exists>r. parse_request plain_raw zero_request = Some r \<and>
      CHR ''?'' \<notin> set (HttpRequest.path r) \<and>
      HttpRequest.path r = ''/api/hello'' \<and> query_string r = [])"
proof -
  let ?rest = "''HTTP/1.1'' @ [CR, LF, CR, LF]"
  have hello: "hello_raw = ''GET'' @ CHR '' '' # ''/api/hello?name=Ada'' @ CHR '' '' # ?rest"
    by (simp add: hello_raw_def)
  have plain: "plain_raw = ''GET'' @ CHR '' '' # ''/api/hello'' @ CHR '' '' # ?rest"
    by (simp add: plain_raw_def)
  have words: "''GET'' \<noteq> [] \<and> length ''GET'' < 16 \<and> length ''GET'' \<le> 15 \<and>
      ''/api/hello?name=Ada'' \<noteq> [] \<and> length ''/api/hello?name=Ada'' < 512 \<and>
      length ''/api/hello?name=Ada'' \<le> 511 \<and>
      (\<forall>c\<in>set (''GET'' @ ''/api/hello?name=Ada''). \<not> isspace c) \<and>
      ''/api/hello'' \<noteq> [] \<and> length ''/api/hello'' < 512 \<and> length ''/api/hello'' \<le> 511 \<and>
      (\<forall>c\<in>set (''GET'' @ ''/api/hello''). \<not> isspace c)"
    by (simp add: isspace_def)
  note i1 = parse_request_splits_target
      [where raw = hello_raw and method_str = "''GET''"
         and line_rest = "CHR '' '' # ''/api/hello?name=Ada'' @ CHR '' '' # ?rest"
         and target = "''/api/hello?name=Ada''" and rest' = "CHR '' '' # ?rest"
         and before = "''/api/hello''" and after = "''name=Ada''" and req = zero_request
         and r' = zero_request
         and m = "''GET''" and t = "''/api/hello?name=Ada''" and rest = ?rest]
  have s1: "scan_word hello_raw = (''GET'', CHR '' '' # ''/api/hello?name=Ada'' @ CHR '' '' # ?rest) \<and>
      scan_word (CHR '' '' # ''/api/hello?name=Ada'' @ CHR '' '' # ?rest) =
        (''/api/hello?name=Ada'', CHR '' '' # ?rest)"
    using i1 words unfolding hello by blast
  have 1: "\<exists>r. parse_request hello_raw zero_request = Some r \<and>
      CHR ''?'' \<notin> set (HttpRequest.path r) \<and>
      HttpRequest.path r = ''/api/hello'' \<and> query_string r = ''name=Ada''"
    using i1 s1 words by auto
  note i2 = parse_request_splits_target
      [where raw = plain_raw and method_str = "''GET''"
         and line_rest = "CHR '' '' # ''/api/hello'' @ CHR '' '' # ?rest"
         and target = "''/api/hello''" and rest' = "CHR '' '' # ?rest"
         and before = "[]" and after = "[]" and req = zero_request
         and r' = zero_request
         and m = "''GET''" and t = "''/api/hello''" and rest = ?rest]
  have s2: "scan_word plain_raw = (''GET'', CHR '' '' # ''/api/hello'' @ CHR '' '' # ?rest) \<and>
      scan_word (CHR '' '' # ''/api/hello'' @ CHR '' '' # ?rest) =
        (''/api/hello'', CHR '' '' # ?rest)"
    using i2 words unfolding plain by blast
  have 2: "\<exists>r. parse_request plain_raw zero_request = Some r \<and>
      CHR ''?'' \<notin> set (HttpRequest.path r) \<and>
      HttpRequest.path r = ''/api/hello'' \<and> query_string r = []"
    using i2 s2 words by auto
  from 1 2 show ?thesis by blast
qed

section \<open>The response invariant under truncation\<close>

text \<open>
  Claim C8 says that \<open>body_length\<close> is the byte length of the body after \<open>init_response\<close>
  and after every setter, also when the content is cut to the capacity of the body.
  The lemmas \<open>init_response_fields\<close> and \<open>setters_short_content\<close> show it for
  \<open>init_response\<close> and for content of fewer than 4095 bytes, and
  \<open>setters_truncated_terminated\<close> for longer content when byte 4095 of the array is
  zero. No function writes that byte. On the response variable of \<^verbatim>\<open>main\<close>, which is
  not initialised, content of 4095 bytes leaves the array without a terminator:
  \<^verbatim>\<open>strlen\<close> then reads past the array, and none of the three setters has a result.
\<close>

theorem setters_truncated_content_unterminated:
  "set_json_response (init_response garbage_response) 200 (replicate 4095 (CHR ''a'')) = None \<and>
   set_text_response (init_response garbage_response) 200 (replicate 4095 (CHR ''a'')) = None \<and>
   set_html_response (init_response garbage_response) 200 (replicate 4095 (CHR ''a'')) = None \<and>
   NUL \<notin> set (strncpy (HttpResponse.body (init_response garbage_response))
                  (replicate 4095 (CHR ''a'')) 4095)"
proof -
  have "NUL \<notin> set (strncpy (HttpResponse.body (init_response garbage_response))
                  (replicate 4095 (CHR ''a'')) 4095)"
    using truncated_copy_unterminated strlen_None_iff by blast
  with truncated_copy_unterminated show ?thesis
    by (simp only: set_json_response_def set_text_response_def set_html_response_def Let_def
          option.case simp_thms)
qed

end
